theory Spec2Isabelle
  imports Complex_Main "HOL-Library.Word"
begin

unbundle bit_operations_syntax

section \<open>Python values of \<open>app.py\<close>\<close>

text \<open>
  The exceptions that the handlers of \<open>app.py\<close> can raise. The first five are the
  D-Bus exception classes the module declares; the others are Python's own.
  \<open>StructError\<close> is \<open>struct.error\<close>, and \<open>BackendError\<close> stands for whatever the
  transport (\<open>requests\<close> or the session bus) raises when a backend call fails.
\<close>

datatype exn =
    InvalidArgsException
  | NotSupportedException
  | NotPermittedException
  | InvalidValueLengthException
  | FailedException
  | NameError
  | TypeError
  | ValueError
  | KeyError
  | UnicodeDecodeError
  | UnicodeEncodeError
  | StructError
  | OverflowError
  | BackendError

type_synonym byte = "8 word"

text \<open>
  A Python \<open>float\<close> is an IEEE-754 binary64 value; it is represented by its 64-bit
  pattern (sign, 11 exponent bits, 52 fraction bits).
\<close>

type_synonym double = "64 word"

text \<open>A Python \<open>str\<close> is a sequence of Unicode code points.\<close>

type_synonym str = "nat list"

definition ascii :: "string \<Rightarrow> str" where
  "ascii s = map of_char s"

text \<open>The real number a finite double denotes; infinities and NaNs denote none.\<close>

definition double_value :: "double \<Rightarrow> real option" where
  "double_value w =
     (let e = unat (take_bit 11 (drop_bit 52 w));
          m = unat (take_bit 52 w);
          sg = (if bit w 63 then - 1 else 1 :: real)
      in if e = 2047 then None
         else if e = 0 then Some (sg * real m / 2 ^ 1074)
         else if 1075 \<le> e then Some (sg * (2 ^ 52 + real m) * 2 ^ (e - 1075))
         else Some (sg * (2 ^ 52 + real m) / 2 ^ (1075 - e)))"

section \<open>The \<open>struct\<close> codec\<close>

text \<open>
  \<open>struct.pack("d", x)\<close> and \<open>struct.unpack\<close> use the byte order of the host
  (\<open>sys.byteorder\<close>), which is a parameter of the model.
\<close>

datatype endian = Little | Big

fun le_bytes :: "nat \<Rightarrow> 'a::len word \<Rightarrow> byte list" where
  "le_bytes 0 w = []"
| "le_bytes (Suc n) w = ucast w # le_bytes n (drop_bit 8 w)"

fun le_word :: "byte list \<Rightarrow> 'a::len word" where
  "le_word [] = 0"
| "le_word (b # bs) = ucast b OR push_bit 8 (le_word bs)"

definition native :: "endian \<Rightarrow> byte list \<Rightarrow> byte list" where
  "native bo bs = (case bo of Little \<Rightarrow> bs | Big \<Rightarrow> rev bs)"

definition struct_pack_d :: "endian \<Rightarrow> double \<Rightarrow> byte list" where
  "struct_pack_d bo x = native bo (le_bytes 8 x)"

text \<open>\<open>struct.unpack("d", buf)[0]\<close>: \<open>struct.error\<close> unless the buffer has 8 bytes.\<close>

definition struct_unpack_d :: "endian \<Rightarrow> byte list \<Rightarrow> exn + double" where
  "struct_unpack_d bo buf =
     (if length buf = 8 then Inr (le_word (native bo buf)) else Inl StructError)"

text \<open>
  \<open>struct.unpack("i", buf)[0]\<close>: a native 4-byte signed integer; \<open>struct.error\<close> unless
  the buffer has 4 bytes.
\<close>

definition struct_unpack_i :: "endian \<Rightarrow> byte list \<Rightarrow> exn + int" where
  "struct_unpack_i bo buf =
     (if length buf = 4 then Inr (sint (le_word (native bo buf) :: 32 word))
      else Inl StructError)"

section \<open>Text: UTF-8, \<open>str.lower\<close> and \<open>int\<close>\<close>

text \<open>
  \<open>bytes(value).decode("utf-8")\<close>: the strict decoder. A lead byte announces one to
  three continuation bytes (\<open>0x80..0xBF\<close>); overlong forms, surrogates
  (\<open>U+D800..U+DFFF\<close>), code points above \<open>U+10FFFF\<close> and truncated sequences raise
  \<open>UnicodeDecodeError\<close>.
\<close>

definition is_cont :: "byte \<Rightarrow> bool" where
  "is_cont b = (128 \<le> unat b \<and> unat b < 192)"

definition cons_cp :: "nat \<Rightarrow> exn + str \<Rightarrow> exn + str" where
  "cons_cp c r = (case r of Inl e \<Rightarrow> Inl e | Inr cs \<Rightarrow> Inr (c # cs))"

fun utf8_decode :: "byte list \<Rightarrow> exn + str" where
  "utf8_decode [] = Inr []"
| "utf8_decode (b0 # bs) =
     (if unat b0 < 128 then cons_cp (unat b0) (utf8_decode bs)
      else if unat b0 < 224 then
        (case bs of
           b1 # r \<Rightarrow>
             (if 194 \<le> unat b0 \<and> is_cont b1
              then cons_cp ((unat b0 - 192) * 64 + (unat b1 - 128)) (utf8_decode r)
              else Inl UnicodeDecodeError)
         | [] \<Rightarrow> Inl UnicodeDecodeError)
      else if unat b0 < 240 then
        (case bs of
           b1 # b2 # r \<Rightarrow>
             (let c = (unat b0 - 224) * 4096 + (unat b1 - 128) * 64 + (unat b2 - 128)
              in if is_cont b1 \<and> is_cont b2 \<and> 2048 \<le> c \<and> (c < 55296 \<or> 57344 \<le> c)
                 then cons_cp c (utf8_decode r)
                 else Inl UnicodeDecodeError)
         | _ \<Rightarrow> Inl UnicodeDecodeError)
      else
        (case bs of
           b1 # b2 # b3 # r \<Rightarrow>
             (let c = (unat b0 - 240) * 262144 + (unat b1 - 128) * 4096
                      + (unat b2 - 128) * 64 + (unat b3 - 128)
              in if unat b0 < 245 \<and> is_cont b1 \<and> is_cont b2 \<and> is_cont b3
                    \<and> 65536 \<le> c \<and> c < 1114112
                 then cons_cp c (utf8_decode r)
                 else Inl UnicodeDecodeError)
         | _ \<Rightarrow> Inl UnicodeDecodeError))"

text \<open>
  The UTF-8 encoding of a \<open>str\<close>; a surrogate raises \<open>UnicodeEncodeError\<close>. The code
  points of a \<open>str\<close> are below \<open>0x110000\<close>.
\<close>

definition utf8_encode_cp :: "nat \<Rightarrow> exn + byte list" where
  "utf8_encode_cp c =
     (if c < 128 then Inr [of_nat c]
      else if c < 2048 then Inr [of_nat (192 + c div 64), of_nat (128 + c mod 64)]
      else if 55296 \<le> c \<and> c < 57344 then Inl UnicodeEncodeError
      else if c < 65536 then
        Inr [of_nat (224 + c div 4096), of_nat (128 + c div 64 mod 64), of_nat (128 + c mod 64)]
      else
        Inr [of_nat (240 + c div 262144), of_nat (128 + c div 4096 mod 64),
             of_nat (128 + c div 64 mod 64), of_nat (128 + c mod 64)])"

fun utf8_encode :: "str \<Rightarrow> exn + byte list" where
  "utf8_encode [] = Inr []"
| "utf8_encode (c # cs) =
     (case utf8_encode_cp c of
        Inl e \<Rightarrow> Inl e
      | Inr bs \<Rightarrow> (case utf8_encode cs of Inl e \<Rightarrow> Inl e | Inr r \<Rightarrow> Inr (bs @ r)))"

text \<open>
  \<open>s.lower()\<close> for text of code points below 256 (all that reaches it: the fan command
  has passed \<open>has_value\<close>, and the light state is built with \<open>chr\<close> from bytes): the
  letters \<open>A..Z\<close> and the upper-case letters of Latin-1 (\<open>0xC0..0xDE\<close> without the
  multiplication sign \<open>0xD7\<close>) move up by 32.
\<close>

definition lower_cp :: "nat \<Rightarrow> nat" where
  "lower_cp c =
     (if (65 \<le> c \<and> c \<le> 90) \<or> (192 \<le> c \<and> c \<le> 222 \<and> c \<noteq> 215) then c + 32 else c)"

definition py_lower :: "str \<Rightarrow> str" where
  "py_lower s = map lower_cp s"

text \<open>
  \<open>int(s)\<close> for text of code points below 256, as CPython 3.11 parses it in base 10:
  white space (tab to carriage return, space, \<open>0x85\<close>, \<open>0xA0\<close>) around an optional
  sign and decimal digits, where single underscores may separate digits; anything
  else raises \<open>ValueError\<close>. (The limit of 4300 digits is beyond the 512 bytes of an
  attribute value.)
\<close>

definition is_space :: "nat \<Rightarrow> bool" where
  "is_space c = ((9 \<le> c \<and> c \<le> 13) \<or> c = 32 \<or> c = 133 \<or> c = 160)"

definition is_digit :: "nat \<Rightarrow> bool" where
  "is_digit c = (48 \<le> c \<and> c \<le> 57)"

fun digits_ok :: "str \<Rightarrow> bool" where
  "digits_ok [] = False"
| "digits_ok [c] = is_digit c"
| "digits_ok (c # d # r) = (is_digit c \<and> (if d = 95 then digits_ok r else digits_ok (d # r)))"

definition digits_value :: "str \<Rightarrow> int" where
  "digits_value s = foldl (\<lambda>a c. 10 * a + (int c - 48)) 0 (filter is_digit s)"

definition py_int :: "str \<Rightarrow> exn + int" where
  "py_int s =
     (let t = dropWhile is_space s;
          neg = (case t of [] \<Rightarrow> False | c # r \<Rightarrow> c = 45);
          u = (case t of [] \<Rightarrow> [] | c # r \<Rightarrow> if c = 43 \<or> c = 45 then r else t);
          body = takeWhile (\<lambda>c. \<not> is_space c) u;
          trail = dropWhile (\<lambda>c. \<not> is_space c) u
      in if digits_ok body \<and> list_all is_space trail
         then Inr (if neg then - digits_value body else digits_value body)
         else Inl ValueError)"

section \<open>The backend\<close>

text \<open>
  A value of a command dictionary (\<open>data\<close> in the write handlers).
\<close>

datatype pyval = PyStr str | PyFloat double | PyInt int

type_synonym pydict = "(string \<times> pyval) list"

text \<open>
  \<open>float(i)\<close> for a Python integer: the nearest double, ties to the even mantissa;
  \<open>OverflowError\<close> when the integer is too large for a double. \<open>bit_length\<close> is
  \<open>int.bit_length\<close>.
\<close>

fun bit_length :: "nat \<Rightarrow> nat" where
  "bit_length n = (if n = 0 then 0 else Suc (bit_length (n div 2)))"

declare bit_length.simps [simp del]

definition float_of_int :: "int \<Rightarrow> exn + double" where
  "float_of_int i =
     (if i = 0 then Inr 0
      else
        (let a = nat \<bar>i\<bar>;
             n = bit_length a;
             q = (if n \<le> 53 then a * 2 ^ (53 - n)
                  else if 2 ^ (n - 54) < a mod 2 ^ (n - 53)
                          \<or> (a mod 2 ^ (n - 53) = 2 ^ (n - 54) \<and> odd (a div 2 ^ (n - 53)))
                       then a div 2 ^ (n - 53) + 1
                       else a div 2 ^ (n - 53));
             m = (if q = 2 ^ 53 then 2 ^ 52 else q);
             e = (if q = 2 ^ 53 then n else n - 1)
         in if 1023 < e then Inl OverflowError
            else Inr (of_nat ((if i < 0 then 2 ^ 63 else 0) + (e + 1023) * 2 ^ 52 + (m - 2 ^ 52)))))"

text \<open>
  A field of the status map returned by \<open>remote_object.status()\<close>, as \<open>float()\<close> sees
  it: a D-Bus double (a \<open>float\<close>, which \<open>float()\<close> returns as it is), a D-Bus integer
  or boolean (subclasses of \<open>int\<close>, which \<open>float()\<close> converts), or any other object,
  given by what \<open>float()\<close> makes of it (text is parsed, and what is not numeric raises
  \<open>TypeError\<close> or \<open>ValueError\<close>).
\<close>

datatype rpcval = RpcDouble double | RpcInt int | RpcOther "exn + double"

fun py_float :: "rpcval \<Rightarrow> exn + double" where
  "py_float (RpcDouble d) = Inr d"
| "py_float (RpcInt i) = float_of_int i"
| "py_float (RpcOther r) = r"

text \<open>
  The enumeration \<open>FanControlCharacteristic.State\<close> and the values of its members.
\<close>

datatype State = State_on | State_off | State_unknown

fun State_value :: "State \<Rightarrow> str" where
  "State_value State_on = ascii ''ON''"
| "State_value State_off = ascii ''OFF''"
| "State_value State_unknown = ascii ''UNKNOWN''"

text \<open>
  The objects handed to \<open>bytearray(x, encoding="utf8")\<close>: a \<open>str\<close>, a member of \<open>State\<close>
  (\<open>State\<close> derives from \<open>Enum\<close> alone, so a member is not a \<open>str\<close>), or any other
  object, such as a field of the REST status that is not text.
\<close>

datatype pyobj = Str str | StateMember State | OtherObject

text \<open>
  The backend as one handler invocation meets it: the outcome of each call the
  handler can make. \<open>rpc_status\<close> is \<open>gr0g_bus.get_object(...)\<close> followed by
  \<open>.status()\<close>, \<open>rpc_cmd\<close> is \<open>get_object\<close> followed by \<open>.cmd(data)\<close>, \<open>http_get\<close> is
  \<open>requests.get(...)\<close> followed by \<open>.json()\<close>, \<open>http_post\<close> is \<open>requests.post\<close>.
  \<open>Inl\<close> is the exception raised. \<open>byteorder\<close> is the host's \<open>sys.byteorder\<close>.
\<close>

record backend =
  byteorder :: endian
  rpc_status :: "exn + (string \<rightharpoonup> rpcval)"
  rpc_cmd :: "pydict \<Rightarrow> exn + unit"
  http_get :: "exn + (string \<rightharpoonup> pyobj)"
  http_post :: "pydict \<Rightarrow> exn + unit"

text \<open>The calls a handler makes to the backend, in order.\<close>

datatype call = RpcStatus | RpcCmd pydict | HttpGet | HttpPost pydict

text \<open>
  \<open>except Exceptions as e:\<close> in the write handlers: the name \<open>Exceptions\<close> is bound
  nowhere in the module, so when an exception reaches the clause, evaluating the
  clause raises \<open>NameError\<close>, which propagates in place of the exception in flight;
  the body of the clause never runs.
\<close>

definition except_Exceptions :: "exn \<Rightarrow> exn" where
  "except_Exceptions e = NameError"

section \<open>The characteristics\<close>

text \<open>
  A characteristic holds \<open>self.value\<close>. The body of the \<open>try\<close> block of the float
  reads: fetch the status, take the field, convert with \<open>float\<close>, pack as a double.
\<close>

record 'a characteristic =
  self_value :: "'a list"

definition status_field :: "backend \<Rightarrow> string \<Rightarrow> exn + byte list" where
  "status_field be key =
     (case rpc_status be of
        Inl e \<Rightarrow> Inl e
      | Inr status \<Rightarrow>
          (case status key of
             None \<Rightarrow> Inl KeyError
           | Some v \<Rightarrow>
               (case py_float v of
                  Inl e \<Rightarrow> Inl e
                | Inr d \<Rightarrow> Inr (struct_pack_d (byteorder be) d))))"

text \<open>
  A float read: on success \<open>self.value\<close> becomes the packed field; \<open>except Exception\<close>
  only logs, and \<open>self.value\<close> is returned in both cases.
\<close>

definition float_ReadValue ::
  "string \<Rightarrow> backend \<Rightarrow> byte characteristic
     \<Rightarrow> (exn + byte list) \<times> byte characteristic \<times> call list" where
  "float_ReadValue key be self =
     (case status_field be key of
        Inr bs \<Rightarrow> (Inr bs, self\<lparr>self_value := bs\<rparr>, [RpcStatus])
      | Inl e \<Rightarrow> (Inr (self_value self), self, [RpcStatus]))"

subsection \<open>\<open>TemperatureSetpointCharacteristic\<close>\<close>

definition TemperatureSetpointCharacteristic_init :: "byte characteristic" where
  "TemperatureSetpointCharacteristic_init = \<lparr>self_value = []\<rparr>"

definition TemperatureSetpointCharacteristic_ReadValue ::
  "backend \<Rightarrow> byte characteristic
     \<Rightarrow> (exn + byte list) \<times> byte characteristic \<times> call list" where
  "TemperatureSetpointCharacteristic_ReadValue = float_ReadValue ''temperature_setpoint''"

definition TemperatureSetpointCharacteristic_WriteValue ::
  "backend \<Rightarrow> byte list \<Rightarrow> byte characteristic
     \<Rightarrow> (exn + unit) \<times> byte characteristic \<times> call list" where
  "TemperatureSetpointCharacteristic_WriteValue be val self =
     (case struct_unpack_d (byteorder be) val of
        Inl e \<Rightarrow> (Inl e, self, [])
      | Inr d \<Rightarrow>
          (let data = [(''cmd'', PyStr (ascii ''temperature_setpoint'')), (''value'', PyFloat d)]
           in case rpc_cmd be data of
                Inr u \<Rightarrow> (Inr (), self, [RpcCmd data])
              | Inl e \<Rightarrow> (Inl (except_Exceptions e), self, [RpcCmd data])))"

subsection \<open>\<open>HumiditySetpointCharacteristic\<close>\<close>

definition HumiditySetpointCharacteristic_init :: "byte characteristic" where
  "HumiditySetpointCharacteristic_init = \<lparr>self_value = []\<rparr>"

definition HumiditySetpointCharacteristic_ReadValue ::
  "backend \<Rightarrow> byte characteristic
     \<Rightarrow> (exn + byte list) \<times> byte characteristic \<times> call list" where
  "HumiditySetpointCharacteristic_ReadValue = float_ReadValue ''humidity_setpoint''"

definition HumiditySetpointCharacteristic_WriteValue ::
  "backend \<Rightarrow> byte list \<Rightarrow> byte characteristic
     \<Rightarrow> (exn + unit) \<times> byte characteristic \<times> call list" where
  "HumiditySetpointCharacteristic_WriteValue be val self =
     (case struct_unpack_i (byteorder be) val of
        Inl e \<Rightarrow> (Inl e, self, [])
      | Inr i \<Rightarrow>
          (let data = [(''cmd'', PyStr (ascii ''humidity_setpoint'')), (''value'', PyInt i)]
           in case rpc_cmd be data of
                Inr u \<Rightarrow> (Inr (), self, [RpcCmd data])
              | Inl e \<Rightarrow> (Inl (except_Exceptions e), self, [RpcCmd data])))"

subsection \<open>The read-only float characteristics\<close>

definition LightCharacteristic_init :: "byte characteristic" where
  "LightCharacteristic_init = \<lparr>self_value = []\<rparr>"

definition LightCharacteristic_ReadValue ::
  "backend \<Rightarrow> byte characteristic
     \<Rightarrow> (exn + byte list) \<times> byte characteristic \<times> call list" where
  "LightCharacteristic_ReadValue = float_ReadValue ''light''"

definition TemperatureCharacteristic_init :: "byte characteristic" where
  "TemperatureCharacteristic_init = \<lparr>self_value = []\<rparr>"

definition TemperatureCharacteristic_ReadValue ::
  "backend \<Rightarrow> byte characteristic
     \<Rightarrow> (exn + byte list) \<times> byte characteristic \<times> call list" where
  "TemperatureCharacteristic_ReadValue = float_ReadValue ''temperature''"

definition HumidityCharacteristic_init :: "byte characteristic" where
  "HumidityCharacteristic_init = \<lparr>self_value = []\<rparr>"

definition HumidityCharacteristic_ReadValue ::
  "backend \<Rightarrow> byte characteristic
     \<Rightarrow> (exn + byte list) \<times> byte characteristic \<times> call list" where
  "HumidityCharacteristic_ReadValue = float_ReadValue ''humidity''"

subsection \<open>\<open>LightControlCharacteristic\<close>\<close>

text \<open>
  \<open>self.value\<close> is a list of Python integers here (\<open>[0]\<close>, then \<open>[self.lastValue]\<close>), and
  \<open>lastValue\<close> starts as the class attribute \<open>0\<close>. \<open>ReadValue\<close> makes no backend call.
\<close>

record light_control = "int characteristic" +
  lastValue :: int

definition LightControlCharacteristic_init :: light_control where
  "LightControlCharacteristic_init = \<lparr>self_value = [0], lastValue = 0\<rparr>"

definition LightControlCharacteristic_ReadValue ::
  "backend \<Rightarrow> light_control \<Rightarrow> (exn + int list) \<times> light_control \<times> call list" where
  "LightControlCharacteristic_ReadValue be self =
     (Inr [lastValue self], self\<lparr>self_value := [lastValue self]\<rparr>, [])"

text \<open>
  \<open>WriteValue\<close>: \<open>svalue\<close> collects \<open>chr(byteValue)\<close> for each byte, \<open>int(svalue)\<close> may raise
  \<open>ValueError\<close>. In the \<open>else\<close> branch the logging line formats the name \<open>cmd\<close>, which
  is bound neither in the method nor in the module: \<open>NameError\<close> is raised before the
  \<open>raise NotPermittedException\<close> that follows it.
\<close>

definition LightControlCharacteristic_WriteValue ::
  "backend \<Rightarrow> byte list \<Rightarrow> light_control \<Rightarrow> (exn + unit) \<times> light_control \<times> call list" where
  "LightControlCharacteristic_WriteValue be val self =
     (let svalue = map unat val in
      case py_int svalue of
        Inl e \<Rightarrow> (Inl e, self, [])
      | Inr ivalue \<Rightarrow>
          if ivalue = 0 \<or> ivalue = 1 \<or> ivalue = 2 then
            (let data = [(''cmd'', PyStr (ascii ''setlight'')), (''state'', PyStr (py_lower svalue))]
             in case rpc_cmd be data of
                  Inr u \<Rightarrow> (Inr (), self\<lparr>lastValue := ivalue\<rparr>, [RpcCmd data])
                | Inl e \<Rightarrow> (Inl (except_Exceptions e), self, [RpcCmd data]))
          else (Inl NameError, self, []))"

subsection \<open>\<open>FanControlCharacteristic\<close>\<close>

text \<open>\<open>State.has_value\<close>: membership in the values of the enumeration.\<close>

definition State_has_value :: "str \<Rightarrow> bool" where
  "State_has_value v = (v \<in> set (map State_value [State_on, State_off, State_unknown]))"

text \<open>
  \<open>bytearray(x, encoding="utf8")\<close>: the UTF-8 bytes of a \<open>str\<close>; for any other object
  \<open>TypeError\<close> (encoding without a string argument).
\<close>

fun bytearray_utf8 :: "pyobj \<Rightarrow> exn + byte list" where
  "bytearray_utf8 (Str s) = utf8_encode s"
| "bytearray_utf8 (StateMember m) = Inl TypeError"
| "bytearray_utf8 OtherObject = Inl TypeError"

definition FanControlCharacteristic_init :: "byte characteristic" where
  "FanControlCharacteristic_init = \<lparr>self_value = [255]\<rparr>"

text \<open>The body of the \<open>try\<close> block of the fan read.\<close>

definition fan_status :: "backend \<Rightarrow> exn + byte list" where
  "fan_status be =
     (case http_get be of
        Inl e \<Rightarrow> Inl e
      | Inr js \<Rightarrow> (case js ''fan'' of None \<Rightarrow> Inl KeyError | Some v \<Rightarrow> bytearray_utf8 v))"

text \<open>
  \<open>ReadValue\<close>: the handler of \<open>except Exception\<close> assigns
  \<open>bytearray(self.State.unknown, encoding="utf8")\<close>, whose argument is the member
  \<open>State.unknown\<close> itself; what \<open>bytearray\<close> raises there leaves the method.
\<close>

definition FanControlCharacteristic_ReadValue ::
  "backend \<Rightarrow> byte characteristic
     \<Rightarrow> (exn + byte list) \<times> byte characteristic \<times> call list" where
  "FanControlCharacteristic_ReadValue be self =
     (case fan_status be of
        Inr bs \<Rightarrow> (Inr bs, self\<lparr>self_value := bs\<rparr>, [HttpGet])
      | Inl e \<Rightarrow>
          (case bytearray_utf8 (StateMember State_unknown) of
             Inr bs \<Rightarrow> (Inr bs, self\<lparr>self_value := bs\<rparr>, [HttpGet])
           | Inl e' \<Rightarrow> (Inl e', self, [HttpGet])))"

definition FanControlCharacteristic_WriteValue ::
  "backend \<Rightarrow> byte list \<Rightarrow> byte characteristic
     \<Rightarrow> (exn + unit) \<times> byte characteristic \<times> call list" where
  "FanControlCharacteristic_WriteValue be val self =
     (case utf8_decode val of
        Inl e \<Rightarrow> (Inl e, self, [])
      | Inr cmd \<Rightarrow>
          if State_has_value cmd then
            (let data = [(''cmd'', PyStr (py_lower cmd))]
             in case http_post be data of
                  Inr u \<Rightarrow> (Inr (), self\<lparr>self_value := val\<rparr>, [HttpPost data])
                | Inl e \<Rightarrow> (Inl (except_Exceptions e), self, [HttpPost data]))
          else (Inl NotPermittedException, self, []))"

section \<open>Startup: \<open>main\<close> and the registration callbacks\<close>

text \<open>
  The process as far as the startup is concerned: the calls issued to the protocol
  stack in order, the log, and the state of \<open>mainloop\<close>.
\<close>

datatype callback = register_ad_cb | register_ad_error_cb | register_app_cb | register_app_error_cb

text \<open>
  What \<open>main\<close> passes as \<open>reply_handler\<close> and \<open>error_handler\<close>: a function, or a list
  of functions (\<open>error_handler=[register_app_error_cb]\<close>).
\<close>

datatype handler = Function callback | ListOf "callback list"

datatype stack_call =
    SetPowered
  | RegisterAgent
  | RegisterAdvertisement handler handler
  | RegisterApplication handler handler
  | RequestDefaultAgent

datatype log_entry = Info string | Critical string

datatype loop_state = NotCreated | Created | Running | Stopped

record process =
  issued :: "stack_call list"
  logged :: "log_entry list"
  mainloop :: loop_state

definition process_start :: process where
  "process_start = \<lparr>issued = [], logged = [], mainloop = NotCreated\<rparr>"

text \<open>
  The four callbacks; the argument is \<open>str(error)\<close>. The error callbacks log at
  critical level and call \<open>mainloop.quit()\<close>.
\<close>

fun run_callback :: "callback \<Rightarrow> string \<Rightarrow> process \<Rightarrow> process" where
  "run_callback register_ad_cb err p = p\<lparr>logged := logged p @ [Info ''Advertisement registered'']\<rparr>"
| "run_callback register_ad_error_cb err p =
     p\<lparr>logged := logged p @ [Critical (''Failed to register advertisement: '' @ err)],
       mainloop := Stopped\<rparr>"
| "run_callback register_app_cb err p = p\<lparr>logged := logged p @ [Info ''GATT application registered'']\<rparr>"
| "run_callback register_app_error_cb err p =
     p\<lparr>logged := logged p @ [Critical (''Failed to register application: '' @ err)],
       mainloop := Stopped\<rparr>"

text \<open>
  The protocol stack as \<open>main\<close> meets it: the adapter \<open>find_adapter\<close> returns (\<open>None\<close>
  when there is none) and, for each call, the exception it raises at once, if any.
\<close>

record stack =
  find_adapter :: "string option"
  raises :: "stack_call \<Rightarrow> exn option"

definition issue :: "stack \<Rightarrow> stack_call \<Rightarrow> process \<Rightarrow> exn + process" where
  "issue st c p =
     (case raises st c of Some e \<Rightarrow> Inl e | None \<Rightarrow> Inr (p\<lparr>issued := issued p @ [c]\<rparr>))"

definition and_then :: "exn + 'a \<Rightarrow> ('a \<Rightarrow> exn + 'b) \<Rightarrow> exn + 'b" where
  "and_then r f = (case r of Inl e \<Rightarrow> Inl e | Inr x \<Rightarrow> f x)"

text \<open>
  \<open>main\<close> up to the point where \<open>mainloop.run()\<close> takes over; \<open>Inl\<close> is an exception
  that ends the process.
\<close>

definition main :: "stack \<Rightarrow> exn + process" where
  "main st =
     (case find_adapter st of
        None \<Rightarrow>
          Inr (process_start\<lparr>logged := [Critical ''GattManager1 interface not found'']\<rparr>)
      | Some adapter \<Rightarrow>
          and_then (issue st SetPowered process_start) (\<lambda>p1.
          and_then (issue st RegisterAgent (p1\<lparr>mainloop := Created\<rparr>)) (\<lambda>p2.
          and_then (issue st (RegisterAdvertisement (Function register_ad_cb)
                                (Function register_ad_error_cb)) p2) (\<lambda>p3.
          and_then (issue st (RegisterApplication (Function register_app_cb)
                                (ListOf [register_app_error_cb]))
                      (p3\<lparr>logged := logged p3 @ [Info ''Registering GATT application...'']\<rparr>)) (\<lambda>p4.
          and_then (issue st RequestDefaultAgent p4) (\<lambda>p5.
          Inr (p5\<lparr>mainloop := Running\<rparr>)))))))"

text \<open>
  The replies of the stack to the two asynchronous registrations, delivered while the
  loop runs. A reply calls the handler object that was passed for it; calling a list
  raises \<open>TypeError\<close> and runs no callback.
\<close>

datatype reply =
    AdvertisementRegistered
  | AdvertisementFailed string
  | ApplicationRegistered
  | ApplicationFailed string

fun py_call :: "handler \<Rightarrow> string \<Rightarrow> process \<Rightarrow> exn + process" where
  "py_call (Function f) err p = Inr (run_callback f err p)"
| "py_call (ListOf fs) err p = Inl TypeError"

fun ad_handlers :: "stack_call list \<Rightarrow> (handler \<times> handler) option" where
  "ad_handlers [] = None"
| "ad_handlers (RegisterAdvertisement r e # cs) = Some (r, e)"
| "ad_handlers (c # cs) = ad_handlers cs"

fun app_handlers :: "stack_call list \<Rightarrow> (handler \<times> handler) option" where
  "app_handlers [] = None"
| "app_handlers (RegisterApplication r e # cs) = Some (r, e)"
| "app_handlers (c # cs) = app_handlers cs"

definition deliver :: "(handler \<times> handler) option \<Rightarrow> bool \<Rightarrow> string \<Rightarrow> process \<Rightarrow> process" where
  "deliver hs failed err p =
     (case hs of
        None \<Rightarrow> p
      | Some (r, e) \<Rightarrow>
          (case py_call (if failed then e else r) err p of Inr p' \<Rightarrow> p' | Inl x \<Rightarrow> p))"

fun dispatch :: "reply \<Rightarrow> process \<Rightarrow> process" where
  "dispatch AdvertisementRegistered p = deliver (ad_handlers (issued p)) False [] p"
| "dispatch (AdvertisementFailed err) p = deliver (ad_handlers (issued p)) True err p"
| "dispatch ApplicationRegistered p = deliver (app_handlers (issued p)) False [] p"
| "dispatch (ApplicationFailed err) p = deliver (app_handlers (issued p)) True err p"

text \<open>\<open>mainloop.run()\<close>: replies are dispatched until \<open>mainloop.quit()\<close> has been called.\<close>

fun mainloop_run :: "reply list \<Rightarrow> process \<Rightarrow> process" where
  "mainloop_run [] p = p"
| "mainloop_run (r # rs) p =
     (if mainloop p = Running then mainloop_run rs (dispatch r p) else p)"

text \<open>The position of the first call that satisfies a test, if there is one.\<close>

fun position :: "('a \<Rightarrow> bool) \<Rightarrow> 'a list \<Rightarrow> nat option" where
  "position t [] = None"
| "position t (x # xs) =
     (if t x then Some 0 else (case position t xs of None \<Rightarrow> None | Some n \<Rightarrow> Some (Suc n)))"

fun is_RegisterAdvertisement :: "stack_call \<Rightarrow> bool" where
  "is_RegisterAdvertisement (RegisterAdvertisement r e) = True"
| "is_RegisterAdvertisement c = False"

fun is_RegisterApplication :: "stack_call \<Rightarrow> bool" where
  "is_RegisterApplication (RegisterApplication r e) = True"
| "is_RegisterApplication c = False"

section \<open>Backends and stacks for concrete runs\<close>

text \<open>
  A backend whose calls all succeed (with a given status map), one whose calls all
  raise, a stack with an adapter whose calls all succeed, and one without adapter.
\<close>

definition backend_up :: "endian \<Rightarrow> (string \<rightharpoonup> rpcval) \<Rightarrow> backend" where
  "backend_up bo st =
     \<lparr>byteorder = bo, rpc_status = Inr st, rpc_cmd = (\<lambda>d. Inr ()),
      http_get = Inr [''fan'' \<mapsto> Str (ascii ''ON'')], http_post = (\<lambda>d. Inr ())\<rparr>"

definition backend_down :: "endian \<Rightarrow> backend" where
  "backend_down bo =
     \<lparr>byteorder = bo, rpc_status = Inl BackendError, rpc_cmd = (\<lambda>d. Inl BackendError),
      http_get = Inl BackendError, http_post = (\<lambda>d. Inl BackendError)\<rparr>"

definition stack_up :: stack where
  "stack_up = \<lparr>find_adapter = Some ''/org/bluez/hci0'', raises = (\<lambda>c. None)\<rparr>"

definition stack_no_adapter :: stack where
  "stack_no_adapter = \<lparr>find_adapter = None, raises = (\<lambda>c. None)\<rparr>"

section \<open>Bytes and words\<close>

lemma length_le_bytes: "length (le_bytes n w) = n"
  by (induction n arbitrary: w) auto

lemma byte_step:
  "(ucast (ucast w :: byte) OR push_bit 8 (take_bit (8 * n) (drop_bit 8 w)) :: 'a::len word)
     = take_bit (8 + 8 * n) w"
proof (rule bit_word_eqI)
  fix k assume "k < LENGTH('a)"
  then show "bit (ucast (ucast w :: byte) OR push_bit 8 (take_bit (8 * n) (drop_bit 8 w)) :: 'a word) k
      = bit (take_bit (8 + 8 * n) w) k"
    by (cases "k < 8") (auto simp add: bit_simps)
qed

lemma le_word_le_bytes: "(le_word (le_bytes n w) :: 'a::len word) = take_bit (8 * n) w"
proof (induction n arbitrary: w)
  case 0
  show ?case by simp
next
  case (Suc n)
  show ?case by (simp add: Suc byte_step)
qed

lemma low_byte:
  "8 \<le> LENGTH('a) \<Longrightarrow> (ucast (ucast b OR push_bit 8 (v :: 'a::len word)) :: byte) = b"
proof (rule bit_word_eqI)
  fix k assume "8 \<le> LENGTH('a)" and "k < LENGTH(8)"
  then show "bit (ucast (ucast b OR push_bit 8 v) :: byte) k = bit b k"
    by (simp add: bit_simps)
qed

lemma high_bytes:
  "drop_bit 8 (ucast (b :: byte) OR push_bit 8 (v :: 'a::len word)) = take_bit (LENGTH('a) - 8) v"
proof (rule bit_word_eqI)
  fix k assume "k < LENGTH('a)"
  then show "bit (drop_bit 8 (ucast b OR push_bit 8 v)) k = bit (take_bit (LENGTH('a) - 8) v) k"
    by (auto simp add: bit_simps dest: bit_imp_le_length)
qed

lemma le_word_bound: "take_bit (8 * length bs) (le_word bs :: 'a::len word) = le_word bs"
proof (induction bs)
  case Nil
  show ?case by simp
next
  case (Cons b bs)
  show ?case
  proof (rule bit_word_eqI)
    fix k assume "k < LENGTH('a)"
    have "bit (le_word bs :: 'a word) (k - 8) \<Longrightarrow> k - 8 < 8 * length bs"
      using Cons.IH by (metis bit_take_bit_iff)
    then show "bit (take_bit (8 * length (b # bs)) (le_word (b # bs) :: 'a word)) k
        = bit (le_word (b # bs) :: 'a word) k"
      by (cases "k < 8") (auto simp add: bit_simps dest: bit_imp_le_length)
  qed
qed

lemma take_bit_widen:
  fixes v :: "'a::len word"
  assumes "take_bit m v = v" and "m \<le> n"
  shows "take_bit n v = v"
proof -
  have "take_bit n (take_bit m v) = take_bit m v"
    using assms(2) by (simp add: min_def)
  then show ?thesis using assms(1) by simp
qed

lemma le_bytes_le_word:
  "8 * length bs \<le> LENGTH('a) \<Longrightarrow> le_bytes (length bs) (le_word bs :: 'a::len word) = bs"
proof (induction bs)
  case Nil
  show ?case by simp
next
  case (Cons b bs)
  have le: "8 * length bs \<le> LENGTH('a) - 8" and l8: "8 \<le> LENGTH('a)"
    and l: "8 * length bs \<le> LENGTH('a)"
    using Cons.prems by simp_all
  have tb: "take_bit (LENGTH('a) - 8) (le_word bs :: 'a word) = le_word bs"
    by (rule take_bit_widen [OF le_word_bound le])
  have hb: "drop_bit 8 (ucast b OR push_bit 8 (le_word bs :: 'a word)) = le_word bs"
    by (simp only: high_bytes tb)
  have lb: "(ucast (ucast b OR push_bit 8 (le_word bs :: 'a word)) :: byte) = b"
    by (rule low_byte [OF l8])
  show ?case
    unfolding length_Cons le_word.simps le_bytes.simps hb lb
    using Cons.IH [OF l] by simp
qed

lemma native_native: "native bo (native bo bs) = bs"
  by (cases bo) (simp_all add: native_def)

lemma length_native: "length (native bo bs) = length bs"
  by (cases bo) (simp_all add: native_def)

lemma length_struct_pack_d: "length (struct_pack_d bo x) = 8"
  by (simp add: struct_pack_d_def length_native length_le_bytes)

lemma unpack_pack_d: "struct_unpack_d bo (struct_pack_d bo x) = Inr x"
proof -
  have "(le_word (le_bytes 8 x) :: double) = x"
    by (simp only: le_word_le_bytes) (simp add: take_bit_word_eq_self)
  then show ?thesis
    by (simp add: struct_unpack_d_def struct_pack_d_def length_native length_le_bytes native_native)
qed

lemma pack_unpack_d:
  "length buf = 8 \<Longrightarrow> struct_unpack_d bo buf = Inr d \<Longrightarrow> struct_pack_d bo d = buf"
proof -
  assume len: "length buf = 8" and u: "struct_unpack_d bo buf = Inr d"
  have d: "d = le_word (native bo buf)"
    using len u by (simp add: struct_unpack_d_def)
  have "le_bytes (length (native bo buf)) (le_word (native bo buf) :: double) = native bo buf"
    by (rule le_bytes_le_word) (simp add: length_native len)
  then have "le_bytes 8 d = native bo buf"
    by (simp add: d length_native len)
  then show ?thesis
    by (simp add: struct_pack_d_def native_native)
qed

lemma le_bytes_8:
  "le_bytes 8 w = [ucast w, ucast (drop_bit 8 w), ucast (drop_bit 16 w), ucast (drop_bit 24 w),
     ucast (drop_bit 32 w), ucast (drop_bit 40 w), ucast (drop_bit 48 w), ucast (drop_bit 56 w)]"
proof -
  have e: "(8::nat) = Suc (Suc (Suc (Suc (Suc (Suc (Suc (Suc 0)))))))"
    by simp
  have "le_bytes (Suc (Suc (Suc (Suc (Suc (Suc (Suc (Suc 0)))))))) w =
     [ucast w, ucast (drop_bit 8 w), ucast (drop_bit 16 w), ucast (drop_bit 24 w),
      ucast (drop_bit 32 w), ucast (drop_bit 40 w), ucast (drop_bit 48 w), ucast (drop_bit 56 w)]"
    by simp
  then show ?thesis
    by (simp only: e [symmetric])
qed

lemma double_value_42: "double_value 0x4045000000000000 = Some 42"
  by (simp add: double_value_def Let_def)

lemma double_value_21_5: "double_value 0x4035800000000000 = Some 21.5"
  by (simp add: double_value_def Let_def)

lemma pack_42_little: "struct_pack_d Little 0x4045000000000000 = [0, 0, 0, 0, 0, 0, 0x45, 0x40]"
  by (simp add: struct_pack_d_def native_def le_bytes_8)

lemma pack_42_big: "struct_pack_d Big 0x4045000000000000 = [0x40, 0x45, 0, 0, 0, 0, 0, 0]"
  by (simp add: struct_pack_d_def native_def le_bytes_8)

lemma pack_21_5_little: "struct_pack_d Little 0x4035800000000000 = [0, 0, 0, 0, 0, 0x80, 0x35, 0x40]"
  by (simp add: struct_pack_d_def native_def le_bytes_8)

section \<open>The float reads\<close>

lemma float_ReadValue_success:
  assumes "rpc_status be = Inr st" and "st key = Some (RpcDouble d)"
  shows "float_ReadValue key be self =
           (Inr (struct_pack_d (byteorder be) d),
            self\<lparr>self_value := struct_pack_d (byteorder be) d\<rparr>, [RpcStatus])"
  using assms by (simp add: float_ReadValue_def status_field_def)

lemma float_ReadValue_converted:
  assumes "rpc_status be = Inr st" and "st key = Some v" and "py_float v = Inr d"
  shows "float_ReadValue key be self =
           (Inr (struct_pack_d (byteorder be) d),
            self\<lparr>self_value := struct_pack_d (byteorder be) d\<rparr>, [RpcStatus])"
  using assms by (simp add: float_ReadValue_def status_field_def)

lemma float_ReadValue_failure:
  assumes "status_field be key = Inl e"
  shows "float_ReadValue key be self = (Inr (self_value self), self, [RpcStatus])"
  using assms by (simp add: float_ReadValue_def)

lemma status_field_down:
  "rpc_status be = Inl e \<Longrightarrow> status_field be key = Inl e"
  by (simp add: status_field_def)

text \<open>
  C8. When the status call succeeds and reports a double \<open>d\<close> for \<open>light\<close>, a read of the
  light characteristic returns the 8 bytes of \<open>d\<close> in native order and stores them as
  \<open>self.value\<close>, with one status call. For \<open>42.0\<close> (the pattern \<open>0x4045000000000000\<close>)
  the witness gives the bytes in both byte orders.
\<close>

theorem light_read_success:
  assumes "rpc_status be = Inr st" and "st ''light'' = Some (RpcDouble d)"
  shows "LightCharacteristic_ReadValue be self =
           (Inr (struct_pack_d (byteorder be) d),
            self\<lparr>self_value := struct_pack_d (byteorder be) d\<rparr>, [RpcStatus])
         \<and> length (struct_pack_d (byteorder be) d) = 8"
  using assms
  by (simp add: LightCharacteristic_ReadValue_def float_ReadValue_success length_struct_pack_d)

theorem light_read_success_witness:
  "double_value 0x4045000000000000 = Some 42
   \<and> LightCharacteristic_ReadValue
        (backend_up Little [''light'' \<mapsto> RpcDouble 0x4045000000000000]) LightCharacteristic_init
      = (Inr [0, 0, 0, 0, 0, 0, 0x45, 0x40], \<lparr>self_value = [0, 0, 0, 0, 0, 0, 0x45, 0x40]\<rparr>, [RpcStatus])
   \<and> LightCharacteristic_ReadValue
        (backend_up Big [''light'' \<mapsto> RpcDouble 0x4045000000000000]) LightCharacteristic_init
      = (Inr [0x40, 0x45, 0, 0, 0, 0, 0, 0], \<lparr>self_value = [0x40, 0x45, 0, 0, 0, 0, 0, 0]\<rparr>, [RpcStatus])"
  using light_read_success [of "backend_up Little [''light'' \<mapsto> RpcDouble 0x4045000000000000]"
      "[''light'' \<mapsto> RpcDouble 0x4045000000000000]" "0x4045000000000000" LightCharacteristic_init]
    light_read_success [of "backend_up Big [''light'' \<mapsto> RpcDouble 0x4045000000000000]"
      "[''light'' \<mapsto> RpcDouble 0x4045000000000000]" "0x4045000000000000" LightCharacteristic_init]
  by (simp add: backend_up_def LightCharacteristic_init_def double_value_42 pack_42_little pack_42_big)

section \<open>The setpoint writes\<close>

lemma unpack_d_wrong_length: "length val \<noteq> 8 \<Longrightarrow> struct_unpack_d bo val = Inl StructError"
  by (simp add: struct_unpack_d_def)

lemma unpack_d_right_length:
  "length val = 8 \<Longrightarrow> struct_unpack_d bo val = Inr (le_word (native bo val))"
  by (simp add: struct_unpack_d_def)

lemma temperature_write_calls:
  "length val = 8 \<Longrightarrow>
   snd (snd (TemperatureSetpointCharacteristic_WriteValue be val self)) =
     [RpcCmd [(''cmd'', PyStr (ascii ''temperature_setpoint'')),
              (''value'', PyFloat (le_word (native (byteorder be) val)))]]"
  by (simp add: TemperatureSetpointCharacteristic_WriteValue_def unpack_d_right_length Let_def
      split: sum.split)

lemma temperature_write_rejected:
  "length val \<noteq> 8 \<Longrightarrow>
   TemperatureSetpointCharacteristic_WriteValue be val self = (Inl StructError, self, [])"
  by (simp add: TemperatureSetpointCharacteristic_WriteValue_def unpack_d_wrong_length)

text \<open>
  C1, as the code has it. A write of exactly 8 bytes to the temperature setpoint
  submits one command \<open>{"cmd": "temperature_setpoint", "value": d}\<close> where \<open>d\<close> is the
  double whose native-order bytes are the payload. A write of any other length raises
  \<open>struct.error\<close> (the module's \<open>InvalidValueLengthException\<close> is raised nowhere),
  makes no backend call and leaves the characteristic as it was.
\<close>

theorem temperature_setpoint_write:
  "(length val = 8 \<longrightarrow>
      (\<exists>d. struct_pack_d (byteorder be) d = val
         \<and> snd (snd (TemperatureSetpointCharacteristic_WriteValue be val self)) =
             [RpcCmd [(''cmd'', PyStr (ascii ''temperature_setpoint'')), (''value'', PyFloat d)]]))
   \<and> (length val \<noteq> 8 \<longrightarrow>
      TemperatureSetpointCharacteristic_WriteValue be val self = (Inl StructError, self, []))"
proof (intro conjI impI)
  assume len: "length val = 8"
  let ?d = "le_word (native (byteorder be) val) :: double"
  have "struct_pack_d (byteorder be) ?d = val"
    by (rule pack_unpack_d [OF len]) (simp add: unpack_d_right_length len)
  then show "\<exists>d. struct_pack_d (byteorder be) d = val
         \<and> snd (snd (TemperatureSetpointCharacteristic_WriteValue be val self)) =
             [RpcCmd [(''cmd'', PyStr (ascii ''temperature_setpoint'')), (''value'', PyFloat d)]]"
    using temperature_write_calls [OF len] by blast
next
  assume "length val \<noteq> 8"
  then show "TemperatureSetpointCharacteristic_WriteValue be val self = (Inl StructError, self, [])"
    by (rule temperature_write_rejected)
qed

theorem temperature_setpoint_write_witness:
  "double_value 0x4035800000000000 = Some 21.5
   \<and> struct_pack_d Little 0x4035800000000000 = [0, 0, 0, 0, 0, 0x80, 0x35, 0x40]
   \<and> snd (snd (TemperatureSetpointCharacteristic_WriteValue (backend_up Little Map.empty)
         [0, 0, 0, 0, 0, 0x80, 0x35, 0x40] TemperatureSetpointCharacteristic_init)) =
       [RpcCmd [(''cmd'', PyStr (ascii ''temperature_setpoint'')),
                (''value'', PyFloat 0x4035800000000000)]]
   \<and> TemperatureSetpointCharacteristic_WriteValue (backend_up Little Map.empty)
         [0, 0, 0x80, 0x3F] TemperatureSetpointCharacteristic_init =
       (Inl StructError, TemperatureSetpointCharacteristic_init, [])
   \<and> TemperatureSetpointCharacteristic_WriteValue (backend_up Little Map.empty)
         [0, 0, 0, 0, 0, 0x80, 0x35, 0x40, 0] TemperatureSetpointCharacteristic_init =
       (Inl StructError, TemperatureSetpointCharacteristic_init, [])"
  using temperature_setpoint_write [of "[0, 0, 0, 0, 0, 0x80, 0x35, 0x40]" "backend_up Little Map.empty"
      TemperatureSetpointCharacteristic_init]
    temperature_setpoint_write [of "[0, 0, 0x80, 0x3F]" "backend_up Little Map.empty"
      TemperatureSetpointCharacteristic_init]
    temperature_setpoint_write [of "[0, 0, 0, 0, 0, 0x80, 0x35, 0x40, 0]" "backend_up Little Map.empty"
      TemperatureSetpointCharacteristic_init]
  by (simp add: double_value_21_5 pack_21_5_little temperature_write_calls backend_up_def native_def)

text \<open>
  C1 as stated fails: a 4-byte write does not signal \<open>InvalidValueLength\<close>.
\<close>

theorem temperature_setpoint_write_counterexample:
  "fst (TemperatureSetpointCharacteristic_WriteValue (backend_up Little Map.empty)
          [0, 0, 0x80, 0x3F] TemperatureSetpointCharacteristic_init) = Inl StructError
   \<and> fst (TemperatureSetpointCharacteristic_WriteValue (backend_up Little Map.empty)
          [0, 0, 0x80, 0x3F] TemperatureSetpointCharacteristic_init)
       \<noteq> Inl InvalidValueLengthException"
  by (simp add: TemperatureSetpointCharacteristic_WriteValue_def struct_unpack_d_def)

lemma temperature_write_packed:
  "snd (snd (TemperatureSetpointCharacteristic_WriteValue be (struct_pack_d (byteorder be) v) self)) =
     [RpcCmd [(''cmd'', PyStr (ascii ''temperature_setpoint'')), (''value'', PyFloat v)]]"
  by (simp add: TemperatureSetpointCharacteristic_WriteValue_def unpack_pack_d Let_def
      split: sum.split)

section \<open>The float codec\<close>

text \<open>
  C9. For every floating value \<open>v\<close>, packing \<open>v\<close> as the reads do (\<open>struct.pack("d", v)\<close>,
  8 bytes in native order) and unpacking the result as the temperature-setpoint write
  does (\<open>struct.unpack("d", ...)\<close>) gives back \<open>v\<close>, bit for bit, in either byte order.
  On the handlers: when the status call reports a field \<open>temperature_setpoint\<close> that
  \<open>float()\<close> makes \<open>v\<close>, the read returns the packed bytes of \<open>v\<close>, and a write of those
  bytes submits the command whose value is \<open>v\<close>.
\<close>

theorem float_codec_roundtrip:
  "length (struct_pack_d bo v) = 8 \<and> struct_unpack_d bo (struct_pack_d bo v) = Inr v
   \<and> (rpc_status be = Inr st \<and> st ''temperature_setpoint'' = Some x \<and> py_float x = Inr v \<longrightarrow>
        fst (TemperatureSetpointCharacteristic_ReadValue be self)
          = Inr (struct_pack_d (byteorder be) v))
   \<and> snd (snd (TemperatureSetpointCharacteristic_WriteValue be
               (struct_pack_d (byteorder be) v) self')) =
        [RpcCmd [(''cmd'', PyStr (ascii ''temperature_setpoint'')), (''value'', PyFloat v)]]"
proof (intro conjI impI)
  show "length (struct_pack_d bo v) = 8"
    by (rule length_struct_pack_d)
next
  show "struct_unpack_d bo (struct_pack_d bo v) = Inr v"
    by (rule unpack_pack_d)
next
  assume "rpc_status be = Inr st \<and> st ''temperature_setpoint'' = Some x \<and> py_float x = Inr v"
  then show "fst (TemperatureSetpointCharacteristic_ReadValue be self)
      = Inr (struct_pack_d (byteorder be) v)"
    by (simp add: TemperatureSetpointCharacteristic_ReadValue_def float_ReadValue_converted)
next
  show "snd (snd (TemperatureSetpointCharacteristic_WriteValue be
               (struct_pack_d (byteorder be) v) self')) =
        [RpcCmd [(''cmd'', PyStr (ascii ''temperature_setpoint'')), (''value'', PyFloat v)]]"
    by (rule temperature_write_packed)
qed

theorem float_codec_roundtrip_witness:
  "double_value 0x4035800000000000 = Some 21.5
   \<and> fst (TemperatureSetpointCharacteristic_ReadValue
            (backend_up Little [''temperature_setpoint'' \<mapsto> RpcDouble 0x4035800000000000])
            TemperatureSetpointCharacteristic_init) = Inr [0, 0, 0, 0, 0, 0x80, 0x35, 0x40]
   \<and> struct_unpack_d Little [0, 0, 0, 0, 0, 0x80, 0x35, 0x40] = Inr 0x4035800000000000
   \<and> snd (snd (TemperatureSetpointCharacteristic_WriteValue
            (backend_up Little [''temperature_setpoint'' \<mapsto> RpcDouble 0x4035800000000000])
            [0, 0, 0, 0, 0, 0x80, 0x35, 0x40] TemperatureSetpointCharacteristic_init)) =
       [RpcCmd [(''cmd'', PyStr (ascii ''temperature_setpoint'')),
                (''value'', PyFloat 0x4035800000000000)]]"
proof -
  let ?st = "[''temperature_setpoint'' \<mapsto> RpcDouble 0x4035800000000000]"
  let ?be = "backend_up Little ?st"
  have b: "byteorder ?be = Little" "rpc_status ?be = Inr ?st"
    by (simp_all add: backend_up_def)
  have s: "?st ''temperature_setpoint'' = Some (RpcDouble 0x4035800000000000)"
    "py_float (RpcDouble 0x4035800000000000) = Inr 0x4035800000000000"
    by simp_all
  note t = float_codec_roundtrip [where bo = Little and v = "0x4035800000000000" and be = ?be
      and st = ?st and x = "RpcDouble 0x4035800000000000"
      and self = TemperatureSetpointCharacteristic_init
      and self' = TemperatureSetpointCharacteristic_init]
  have r: "fst (TemperatureSetpointCharacteristic_ReadValue ?be TemperatureSetpointCharacteristic_init)
      = Inr [0, 0, 0, 0, 0, 0x80, 0x35, 0x40]"
    using t b s by (simp add: pack_21_5_little)
  have u: "struct_unpack_d Little [0, 0, 0, 0, 0, 0x80, 0x35, 0x40] = Inr 0x4035800000000000"
    using t by (simp add: pack_21_5_little)
  have w: "snd (snd (TemperatureSetpointCharacteristic_WriteValue ?be
      [0, 0, 0, 0, 0, 0x80, 0x35, 0x40] TemperatureSetpointCharacteristic_init)) =
       [RpcCmd [(''cmd'', PyStr (ascii ''temperature_setpoint'')),
                (''value'', PyFloat 0x4035800000000000)]]"
    using t b by (simp add: pack_21_5_little)
  show ?thesis
    using r u w double_value_21_5 by simp
qed

section \<open>The humidity setpoint\<close>

lemma unpack_i_wrong_length: "length val \<noteq> 4 \<Longrightarrow> struct_unpack_i bo val = Inl StructError"
  by (simp add: struct_unpack_i_def)

lemma unpack_i_right_length:
  "length val = 4 \<Longrightarrow>
   struct_unpack_i bo val = Inr (sint (le_word (native bo val) :: 32 word))"
  by (simp add: struct_unpack_i_def)

lemma humidity_write_calls:
  "length val = 4 \<Longrightarrow>
   snd (snd (HumiditySetpointCharacteristic_WriteValue be val self)) =
     [RpcCmd [(''cmd'', PyStr (ascii ''humidity_setpoint'')),
              (''value'', PyInt (sint (le_word (native (byteorder be) val) :: 32 word)))]]"
  by (simp add: HumiditySetpointCharacteristic_WriteValue_def unpack_i_right_length Let_def
      split: sum.split)

lemma humidity_write_rejected:
  "length val \<noteq> 4 \<Longrightarrow>
   HumiditySetpointCharacteristic_WriteValue be val self = (Inl StructError, self, [])"
  by (simp add: HumiditySetpointCharacteristic_WriteValue_def unpack_i_wrong_length)

lemma bit_length_60: "bit_length 60 = 6"
  by (simp add: bit_length.simps)

lemma float_of_int_60: "float_of_int 60 = Inr 0x404E000000000000"
  by (simp add: float_of_int_def bit_length_60 Let_def)

text \<open>
  C6. The humidity setpoint is asymmetric. A read whose status call reports a field
  \<open>humidity_setpoint\<close> that \<open>float()\<close> converts to the double \<open>d\<close> (a double is taken as
  it is, an integer is rounded to the nearest double) returns the 8 native-order bytes
  of \<open>d\<close>, stores them as \<open>self.value\<close> and makes one status call. A write of 4 bytes
  submits \<open>{"cmd": "humidity_setpoint", "value": i}\<close> with \<open>i\<close> the signed 32-bit integer
  those bytes hold in native order; a write of any other length, so also of the 8
  bytes a read has just returned, raises \<open>struct.error\<close> and submits nothing.
\<close>

theorem humidity_setpoint_asymmetry:
  "(rpc_status be = Inr st \<and> st ''humidity_setpoint'' = Some v \<and> py_float v = Inr x \<longrightarrow>
      HumiditySetpointCharacteristic_ReadValue be self =
        (Inr (struct_pack_d (byteorder be) x),
         self\<lparr>self_value := struct_pack_d (byteorder be) x\<rparr>, [RpcStatus])
      \<and> length (struct_pack_d (byteorder be) x) = 8)
   \<and> py_float (RpcDouble d) = Inr d
   \<and> py_float (RpcInt i) = float_of_int i
   \<and> (rpc_status be = Inr st \<and> st ''humidity_setpoint'' = Some (RpcDouble d) \<longrightarrow>
      fst (HumiditySetpointCharacteristic_ReadValue be self) = Inr (struct_pack_d (byteorder be) d)
      \<and> length (struct_pack_d (byteorder be) d) = 8)
   \<and> (length val = 4 \<longrightarrow>
      snd (snd (HumiditySetpointCharacteristic_WriteValue be val self)) =
        [RpcCmd [(''cmd'', PyStr (ascii ''humidity_setpoint'')),
                 (''value'', PyInt (sint (le_word (native (byteorder be) val) :: 32 word)))]])
   \<and> (length val \<noteq> 4 \<longrightarrow>
      HumiditySetpointCharacteristic_WriteValue be val self = (Inl StructError, self, []))
   \<and> HumiditySetpointCharacteristic_WriteValue be (struct_pack_d bo d) self =
        (Inl StructError, self, [])"
proof (intro conjI impI)
  assume "rpc_status be = Inr st \<and> st ''humidity_setpoint'' = Some v \<and> py_float v = Inr x"
  then show "HumiditySetpointCharacteristic_ReadValue be self =
        (Inr (struct_pack_d (byteorder be) x),
         self\<lparr>self_value := struct_pack_d (byteorder be) x\<rparr>, [RpcStatus])"
    by (simp add: HumiditySetpointCharacteristic_ReadValue_def float_ReadValue_converted)
next
  show "length (struct_pack_d (byteorder be) x) = 8"
    by (rule length_struct_pack_d)
next
  show "py_float (RpcDouble d) = Inr d"
    by simp
next
  show "py_float (RpcInt i) = float_of_int i"
    by simp
next
  assume "rpc_status be = Inr st \<and> st ''humidity_setpoint'' = Some (RpcDouble d)"
  then show "fst (HumiditySetpointCharacteristic_ReadValue be self)
      = Inr (struct_pack_d (byteorder be) d)"
    by (simp add: HumiditySetpointCharacteristic_ReadValue_def float_ReadValue_success)
next
  show "length (struct_pack_d (byteorder be) d) = 8"
    by (rule length_struct_pack_d)
next
  assume "length val = 4"
  then show "snd (snd (HumiditySetpointCharacteristic_WriteValue be val self)) =
        [RpcCmd [(''cmd'', PyStr (ascii ''humidity_setpoint'')),
                 (''value'', PyInt (sint (le_word (native (byteorder be) val) :: 32 word)))]]"
    by (rule humidity_write_calls)
next
  assume "length val \<noteq> 4"
  then show "HumiditySetpointCharacteristic_WriteValue be val self = (Inl StructError, self, [])"
    by (rule humidity_write_rejected)
next
  show "HumiditySetpointCharacteristic_WriteValue be (struct_pack_d bo d) self =
        (Inl StructError, self, [])"
    by (rule humidity_write_rejected) (simp add: length_struct_pack_d)
qed

theorem humidity_setpoint_asymmetry_witness:
  "fst (HumiditySetpointCharacteristic_ReadValue
          (backend_up Little [''humidity_setpoint'' \<mapsto> RpcDouble 0x404E000000000000])
          HumiditySetpointCharacteristic_init) = Inr [0, 0, 0, 0, 0, 0, 0x4E, 0x40]
   \<and> double_value 0x404E000000000000 = Some 60
   \<and> float_of_int 60 = Inr 0x404E000000000000
   \<and> HumiditySetpointCharacteristic_ReadValue
          (backend_up Little [''humidity_setpoint'' \<mapsto> RpcInt 60])
          HumiditySetpointCharacteristic_init =
        (Inr [0, 0, 0, 0, 0, 0, 0x4E, 0x40], \<lparr>self_value = [0, 0, 0, 0, 0, 0, 0x4E, 0x40]\<rparr>,
         [RpcStatus])
   \<and> snd (snd (HumiditySetpointCharacteristic_WriteValue
          (backend_up Little [''humidity_setpoint'' \<mapsto> RpcDouble 0x404E000000000000])
          [0x3C, 0, 0, 0] HumiditySetpointCharacteristic_init)) =
        [RpcCmd [(''cmd'', PyStr (ascii ''humidity_setpoint'')), (''value'', PyInt 60)]]
   \<and> snd (snd (HumiditySetpointCharacteristic_WriteValue
          (backend_up Little [''humidity_setpoint'' \<mapsto> RpcDouble 0x404E000000000000])
          [0xFF, 0xFF, 0xFF, 0xFF] HumiditySetpointCharacteristic_init)) =
        [RpcCmd [(''cmd'', PyStr (ascii ''humidity_setpoint'')), (''value'', PyInt (- 1))]]
   \<and> HumiditySetpointCharacteristic_WriteValue
          (backend_up Little [''humidity_setpoint'' \<mapsto> RpcDouble 0x404E000000000000])
          [0, 0, 0, 0, 0, 0, 0x4E, 0x40] HumiditySetpointCharacteristic_init =
        (Inl StructError, HumiditySetpointCharacteristic_init, [])"
proof -
  let ?st = "[''humidity_setpoint'' \<mapsto> RpcDouble 0x404E000000000000]"
  let ?be = "backend_up Little ?st"
  let ?sti = "[''humidity_setpoint'' \<mapsto> RpcInt 60]"
  let ?bei = "backend_up Little ?sti"
  have p: "struct_pack_d Little 0x404E000000000000 = [0, 0, 0, 0, 0, 0, 0x4E, 0x40]"
    by (simp add: struct_pack_d_def native_def le_bytes_8)
  have v: "double_value 0x404E000000000000 = Some 60"
    by (simp add: double_value_def Let_def)
  have b: "byteorder ?be = Little" "rpc_status ?be = Inr ?st"
    by (simp_all add: backend_up_def)
  have bi: "byteorder ?bei = Little" "rpc_status ?bei = Inr ?sti"
    by (simp_all add: backend_up_def)
  have s: "?st ''humidity_setpoint'' = Some (RpcDouble 0x404E000000000000)"
    by simp
  have si: "?sti ''humidity_setpoint'' = Some (RpcInt 60)"
    "py_float (RpcInt 60) = Inr 0x404E000000000000"
    by (simp_all add: float_of_int_60)
  note a = humidity_setpoint_asymmetry [of ?be ?st "RpcDouble 0x404E000000000000"
      "0x404E000000000000" HumiditySetpointCharacteristic_init "0x404E000000000000" 60
      "[0x3C, 0, 0, 0]" Little]
  note a' = humidity_setpoint_asymmetry [of ?be ?st "RpcDouble 0x404E000000000000"
      "0x404E000000000000" HumiditySetpointCharacteristic_init "0x404E000000000000" 60
      "[0xFF, 0xFF, 0xFF, 0xFF]" Little]
  note ai = humidity_setpoint_asymmetry [of ?bei ?sti "RpcInt 60"
      "0x404E000000000000" HumiditySetpointCharacteristic_init "0x404E000000000000" 60
      "[0x3C, 0, 0, 0]" Little]
  have r: "fst (HumiditySetpointCharacteristic_ReadValue ?be HumiditySetpointCharacteristic_init)
      = Inr [0, 0, 0, 0, 0, 0, 0x4E, 0x40]"
    using a b s p by simp
  have ri: "HumiditySetpointCharacteristic_ReadValue ?bei HumiditySetpointCharacteristic_init =
        (Inr [0, 0, 0, 0, 0, 0, 0x4E, 0x40], \<lparr>self_value = [0, 0, 0, 0, 0, 0, 0x4E, 0x40]\<rparr>,
         [RpcStatus])"
    using ai bi si p by (simp add: HumiditySetpointCharacteristic_init_def)
  have w1: "snd (snd (HumiditySetpointCharacteristic_WriteValue ?be [0x3C, 0, 0, 0]
      HumiditySetpointCharacteristic_init)) =
        [RpcCmd [(''cmd'', PyStr (ascii ''humidity_setpoint'')), (''value'', PyInt 60)]]"
    using a b by (simp add: native_def)
  have w2: "snd (snd (HumiditySetpointCharacteristic_WriteValue ?be [0xFF, 0xFF, 0xFF, 0xFF]
      HumiditySetpointCharacteristic_init)) =
        [RpcCmd [(''cmd'', PyStr (ascii ''humidity_setpoint'')), (''value'', PyInt (- 1))]]"
    using a' b by (simp add: native_def)
  have w3: "HumiditySetpointCharacteristic_WriteValue ?be [0, 0, 0, 0, 0, 0, 0x4E, 0x40]
      HumiditySetpointCharacteristic_init = (Inl StructError, HumiditySetpointCharacteristic_init, [])"
    using a p by simp
  show ?thesis
    using r ri v w1 w2 w3 float_of_int_60 by simp
qed

section \<open>Initial values and failing reads\<close>

lemma utf8_encode_ON: "utf8_encode (ascii ''ON'') = Inr [79, 78]"
  by (simp add: ascii_def utf8_encode_cp_def)

lemma utf8_encode_OFF: "utf8_encode (ascii ''OFF'') = Inr [79, 70, 70]"
  by (simp add: ascii_def utf8_encode_cp_def)

lemma utf8_encode_UNKNOWN: "utf8_encode (ascii ''UNKNOWN'') = Inr [85, 78, 75, 78, 79, 87, 78]"
  by (simp add: ascii_def utf8_encode_cp_def)

lemma utf8_encode_State_value:
  "utf8_encode (State_value m) =
     Inr (case m of State_on \<Rightarrow> [79, 78] | State_off \<Rightarrow> [79, 70, 70]
          | State_unknown \<Rightarrow> [85, 78, 75, 78, 79, 87, 78])"
  by (cases m) (simp_all add: utf8_encode_ON utf8_encode_OFF utf8_encode_UNKNOWN)

lemma float_read_down:
  "rpc_status be = Inl e \<Longrightarrow>
   float_ReadValue key be self = (Inr (self_value self), self, [RpcStatus])"
  by (rule float_ReadValue_failure [OF status_field_down])

text \<open>
  C10. Before the first read or write, \<open>self.value\<close> of the fan characteristic is the
  single byte \<open>0xFF\<close>, which is not valid UTF-8 and is the encoding of no member of
  \<open>State\<close>; the light control holds \<open>[0]\<close> with \<open>lastValue\<close> 0; every float
  characteristic holds the empty list. So a first read of a float characteristic
  whose status call fails returns the empty byte string, not 8 bytes.
\<close>

theorem initial_values:
  "self_value FanControlCharacteristic_init = [255]
   \<and> utf8_decode [255] = Inl UnicodeDecodeError
   \<and> utf8_encode (State_value m) \<noteq> Inr [255]
   \<and> self_value LightControlCharacteristic_init = [0]
   \<and> lastValue LightControlCharacteristic_init = 0
   \<and> self_value LightCharacteristic_init = []
   \<and> self_value TemperatureCharacteristic_init = []
   \<and> self_value TemperatureSetpointCharacteristic_init = []
   \<and> self_value HumidityCharacteristic_init = []
   \<and> self_value HumiditySetpointCharacteristic_init = []
   \<and> (rpc_status be = Inl e \<longrightarrow>
        fst (LightCharacteristic_ReadValue be LightCharacteristic_init) = Inr []
      \<and> fst (TemperatureCharacteristic_ReadValue be TemperatureCharacteristic_init) = Inr []
      \<and> fst (TemperatureSetpointCharacteristic_ReadValue be TemperatureSetpointCharacteristic_init)
          = Inr []
      \<and> fst (HumidityCharacteristic_ReadValue be HumidityCharacteristic_init) = Inr []
      \<and> fst (HumiditySetpointCharacteristic_ReadValue be HumiditySetpointCharacteristic_init)
          = Inr [])"
proof -
  have enc: "utf8_encode (State_value m) \<noteq> Inr [255]"
    by (cases m) (simp_all add: utf8_encode_ON utf8_encode_OFF utf8_encode_UNKNOWN)
  have dec: "utf8_decode [255] = Inl UnicodeDecodeError"
    by simp
  have reads: "rpc_status be = Inl e \<longrightarrow>
        fst (LightCharacteristic_ReadValue be LightCharacteristic_init) = Inr []
      \<and> fst (TemperatureCharacteristic_ReadValue be TemperatureCharacteristic_init) = Inr []
      \<and> fst (TemperatureSetpointCharacteristic_ReadValue be TemperatureSetpointCharacteristic_init)
          = Inr []
      \<and> fst (HumidityCharacteristic_ReadValue be HumidityCharacteristic_init) = Inr []
      \<and> fst (HumiditySetpointCharacteristic_ReadValue be HumiditySetpointCharacteristic_init)
          = Inr []"
    by (simp add: float_read_down LightCharacteristic_ReadValue_def LightCharacteristic_init_def
        TemperatureCharacteristic_ReadValue_def TemperatureCharacteristic_init_def
        TemperatureSetpointCharacteristic_ReadValue_def TemperatureSetpointCharacteristic_init_def
        HumidityCharacteristic_ReadValue_def HumidityCharacteristic_init_def
        HumiditySetpointCharacteristic_ReadValue_def HumiditySetpointCharacteristic_init_def)
  have inits: "self_value FanControlCharacteristic_init = [255]"
    "self_value LightControlCharacteristic_init = [0]"
    "lastValue LightControlCharacteristic_init = 0"
    "self_value LightCharacteristic_init = []"
    "self_value TemperatureCharacteristic_init = []"
    "self_value TemperatureSetpointCharacteristic_init = []"
    "self_value HumidityCharacteristic_init = []"
    "self_value HumiditySetpointCharacteristic_init = []"
    by (simp_all add: FanControlCharacteristic_init_def LightControlCharacteristic_init_def
        LightCharacteristic_init_def TemperatureCharacteristic_init_def
        TemperatureSetpointCharacteristic_init_def HumidityCharacteristic_init_def
        HumiditySetpointCharacteristic_init_def)
  show ?thesis
    using enc dec reads inits by simp
qed

theorem initial_values_witness:
  "rpc_status (backend_down Little) = Inl BackendError
   \<and> fst (LightCharacteristic_ReadValue (backend_down Little) LightCharacteristic_init) = Inr []
   \<and> fst (TemperatureCharacteristic_ReadValue (backend_down Little) TemperatureCharacteristic_init)
       = Inr []
   \<and> fst (TemperatureSetpointCharacteristic_ReadValue (backend_down Little)
            TemperatureSetpointCharacteristic_init) = Inr []
   \<and> fst (HumidityCharacteristic_ReadValue (backend_down Little) HumidityCharacteristic_init)
       = Inr []
   \<and> fst (HumiditySetpointCharacteristic_ReadValue (backend_down Little)
            HumiditySetpointCharacteristic_init) = Inr []"
  using initial_values [of State_on "backend_down Little" BackendError]
  by (simp add: backend_down_def)

section \<open>The fan characteristic\<close>

lemma float_read_failure_twice:
  assumes "status_field be key = Inl e" and "status_field be' key = Inl e'"
  shows "fst (float_ReadValue key be' (fst (snd (float_ReadValue key be self))))
           = fst (float_ReadValue key be self)
         \<and> fst (float_ReadValue key be self) = Inr (self_value self)"
  using assms by (simp add: float_ReadValue_def)

text \<open>
  C5, at the fan. When anything in the \<open>try\<close> block of the fan read fails (the GET, the
  JSON, the \<open>fan\<close> field), the handler of \<open>except Exception\<close> calls \<open>bytearray\<close> on the
  member \<open>State.unknown\<close> instead of on its value: the read raises \<open>TypeError\<close> to the
  caller and \<open>self.value\<close> stays as it was. The bytes of \<open>"UNKNOWN"\<close> are not returned.
\<close>

theorem fan_read_failure:
  assumes "fan_status be = Inl e"
  shows "FanControlCharacteristic_ReadValue be self = (Inl TypeError, self, [HttpGet])"
  using assms by (simp add: FanControlCharacteristic_ReadValue_def)

theorem fan_read_failure_witness:
  "fan_status (backend_down Little) = Inl BackendError
   \<and> FanControlCharacteristic_ReadValue (backend_down Little) FanControlCharacteristic_init
       = (Inl TypeError, FanControlCharacteristic_init, [HttpGet])
   \<and> utf8_encode (ascii ''UNKNOWN'') = Inr [85, 78, 75, 78, 79, 87, 78]"
proof -
  have f: "fan_status (backend_down Little) = Inl BackendError"
    by (simp add: fan_status_def backend_down_def)
  show ?thesis
    using fan_read_failure [OF f, of FanControlCharacteristic_init] f
    by (simp add: utf8_encode_UNKNOWN)
qed

lemma word_of_unat_byte: "(of_nat (unat (b :: byte)) :: byte) = b"
  by simp

lemma utf8_decode_ascii:
  "utf8_decode val = Inr cs \<Longrightarrow> list_all (\<lambda>c. c < 128) cs \<Longrightarrow> val = map of_nat cs"
proof (induction val arbitrary: cs rule: utf8_decode.induct)
  case 1
  then show ?case by simp
next
  case (2 b0 bs)
  show ?case
  proof (cases "unat b0 < 128")
    case True
    with "2.prems" obtain r where r: "utf8_decode bs = Inr r" "cs = unat b0 # r"
      by (auto simp add: cons_cp_def split: sum.splits)
    with "2.prems" have "list_all (\<lambda>c. c < 128) r" by simp
    with "2.IH"(1) [OF True r(1)] have "bs = map of_nat r" .
    with r show ?thesis by simp
  next
    case False
    with "2.prems"(1) obtain c r where "cs = c # r" "128 \<le> c"
      by (auto simp add: cons_cp_def Let_def split: if_splits list.splits sum.splits)
    with "2.prems"(2) show ?thesis by simp
  qed
qed

lemma State_has_value_iff: "State_has_value cmd \<longleftrightarrow> (\<exists>m. cmd = State_value m)"
proof
  assume "State_has_value cmd"
  then have "cmd = State_value State_on \<or> cmd = State_value State_off
      \<or> cmd = State_value State_unknown"
    unfolding State_has_value_def by simp
  then show "\<exists>m. cmd = State_value m" by blast
next
  assume "\<exists>m. cmd = State_value m"
  then obtain m where "cmd = State_value m" ..
  then show "State_has_value cmd"
    unfolding State_has_value_def by (cases m) simp_all
qed

lemma State_value_ascii: "list_all (\<lambda>c. c < 128) (State_value m)"
  by (cases m) (simp_all add: ascii_def)

lemma map_of_nat_State_value:
  "map of_nat (State_value m) =
     (case m of State_on \<Rightarrow> [79, 78] | State_off \<Rightarrow> [79, 70, 70]
      | State_unknown \<Rightarrow> [85, 78, 75, 78, 79, 87, 78 :: byte])"
  by (cases m) (simp_all add: ascii_def)

lemma utf8_decode_State_value:
  assumes "utf8_encode (State_value m) = Inr val"
  shows "utf8_decode val = Inr (State_value m)"
proof -
  have "val = (case m of State_on \<Rightarrow> [79, 78] | State_off \<Rightarrow> [79, 70, 70]
                | State_unknown \<Rightarrow> [85, 78, 75, 78, 79, 87, 78])"
    using assms by (simp only: utf8_encode_State_value sum.inject)
  then show ?thesis
    by (cases m) (simp_all add: cons_cp_def ascii_def)
qed

lemma fan_accepts_iff:
  "(\<exists>cmd. utf8_decode val = Inr cmd \<and> State_has_value cmd)
     \<longleftrightarrow> (\<exists>m. utf8_encode (State_value m) = Inr val)"
proof
  assume "\<exists>cmd. utf8_decode val = Inr cmd \<and> State_has_value cmd"
  then obtain m where d: "utf8_decode val = Inr (State_value m)"
    by (auto simp add: State_has_value_iff)
  have "val = map of_nat (State_value m)"
    by (rule utf8_decode_ascii [OF d State_value_ascii])
  then have "utf8_encode (State_value m) = Inr val"
    by (simp only: utf8_encode_State_value map_of_nat_State_value)
  then show "\<exists>m. utf8_encode (State_value m) = Inr val" ..
next
  assume "\<exists>m. utf8_encode (State_value m) = Inr val"
  then obtain m where "utf8_encode (State_value m) = Inr val" ..
  then have "utf8_decode val = Inr (State_value m)"
    by (rule utf8_decode_State_value)
  then show "\<exists>cmd. utf8_decode val = Inr cmd \<and> State_has_value cmd"
    by (auto simp add: State_has_value_iff)
qed

lemma py_lower_State_value:
  "py_lower (State_value m) =
     (case m of State_on \<Rightarrow> ascii ''on'' | State_off \<Rightarrow> ascii ''off''
      | State_unknown \<Rightarrow> ascii ''unknown'')"
  by (cases m) (simp_all add: py_lower_def lower_cp_def ascii_def)

lemma fan_write_accepted:
  assumes "utf8_encode (State_value m) = Inr val"
  shows "snd (snd (FanControlCharacteristic_WriteValue be val self)) =
           [HttpPost [(''cmd'', PyStr (py_lower (State_value m)))]]"
proof -
  have "utf8_decode val = Inr (State_value m)"
    using assms by (rule utf8_decode_State_value)
  moreover have "State_has_value (State_value m)"
    by (auto simp add: State_has_value_iff)
  ultimately show ?thesis
    by (simp add: FanControlCharacteristic_WriteValue_def Let_def split: sum.split)
qed

lemma fan_write_not_member:
  assumes "utf8_decode val = Inr cmd" and "\<not> State_has_value cmd"
  shows "FanControlCharacteristic_WriteValue be val self = (Inl NotPermittedException, self, [])"
  using assms by (simp add: FanControlCharacteristic_WriteValue_def)

lemma fan_write_not_utf8:
  assumes "utf8_decode val = Inl e"
  shows "FanControlCharacteristic_WriteValue be val self = (Inl e, self, [])"
  using assms by (simp add: FanControlCharacteristic_WriteValue_def)

text \<open>
  C3, as the code has it. The fan write forwards a payload to the backend exactly when
  the payload is the UTF-8 encoding of \<open>"ON"\<close>, \<open>"OFF"\<close> or \<open>"UNKNOWN"\<close>, spelled so in
  upper case; the value forwarded is the lower-cased text (\<open>"on"\<close>, \<open>"off"\<close>,
 \<open>"unknown"\<close>). Every other payload that is valid UTF-8 raises \<open>NotPermitted\<close>, makes no
  backend call and leaves \<open>self.value\<close> as it was.
\<close>

theorem fan_write_validation:
  "(snd (snd (FanControlCharacteristic_WriteValue be val self)) \<noteq> []
      \<longleftrightarrow> (\<exists>m. utf8_encode (State_value m) = Inr val))
   \<and> (utf8_encode (State_value m) = Inr val \<longrightarrow>
        snd (snd (FanControlCharacteristic_WriteValue be val self)) =
          [HttpPost [(''cmd'', PyStr (case m of State_on \<Rightarrow> ascii ''on''
             | State_off \<Rightarrow> ascii ''off'' | State_unknown \<Rightarrow> ascii ''unknown''))]])
   \<and> (utf8_decode val = Inr cmd \<and> (\<forall>m. utf8_encode (State_value m) \<noteq> Inr val) \<longrightarrow>
        FanControlCharacteristic_WriteValue be val self = (Inl NotPermittedException, self, []))"
proof (intro conjI impI)
  show "snd (snd (FanControlCharacteristic_WriteValue be val self)) \<noteq> []
      \<longleftrightarrow> (\<exists>m. utf8_encode (State_value m) = Inr val)"
  proof
    assume c: "snd (snd (FanControlCharacteristic_WriteValue be val self)) \<noteq> []"
    then have "\<exists>cmd. utf8_decode val = Inr cmd \<and> State_has_value cmd"
      by (auto simp add: FanControlCharacteristic_WriteValue_def split: sum.splits if_splits)
    then show "\<exists>m. utf8_encode (State_value m) = Inr val"
      by (simp only: fan_accepts_iff)
  next
    assume "\<exists>m. utf8_encode (State_value m) = Inr val"
    then obtain m where "utf8_encode (State_value m) = Inr val" ..
    then show "snd (snd (FanControlCharacteristic_WriteValue be val self)) \<noteq> []"
      by (simp add: fan_write_accepted)
  qed
next
  assume "utf8_encode (State_value m) = Inr val"
  then show "snd (snd (FanControlCharacteristic_WriteValue be val self)) =
          [HttpPost [(''cmd'', PyStr (case m of State_on \<Rightarrow> ascii ''on''
             | State_off \<Rightarrow> ascii ''off'' | State_unknown \<Rightarrow> ascii ''unknown''))]]"
    by (simp only: fan_write_accepted py_lower_State_value)
next
  assume a: "utf8_decode val = Inr cmd \<and> (\<forall>m. utf8_encode (State_value m) \<noteq> Inr val)"
  then have "\<not> State_has_value cmd"
    using fan_accepts_iff [of val] by auto
  with a show "FanControlCharacteristic_WriteValue be val self
      = (Inl NotPermittedException, self, [])"
    by (simp add: fan_write_not_member)
qed

lemma utf8_encode_on: "utf8_encode (ascii ''on'') = Inr [111, 110]"
  by (simp add: ascii_def utf8_encode_cp_def)

lemma fan_write_on_lower_case:
  "FanControlCharacteristic_WriteValue be [111, 110] self = (Inl NotPermittedException, self, [])"
proof -
  have "utf8_decode [111, 110] = Inr [111, 110]"
    by (simp add: cons_cp_def)
  moreover have "\<not> State_has_value [111, 110]"
    by (simp add: State_has_value_def ascii_def)
  ultimately show ?thesis
    by (rule fan_write_not_member)
qed

theorem fan_write_validation_witness:
  "utf8_encode (State_value State_on) = Inr [79, 78]
   \<and> snd (snd (FanControlCharacteristic_WriteValue (backend_up Little Map.empty) [79, 78]
               FanControlCharacteristic_init)) = [HttpPost [(''cmd'', PyStr (ascii ''on''))]]
   \<and> utf8_decode [79, 110] = Inr [79, 110]
   \<and> FanControlCharacteristic_WriteValue (backend_up Little Map.empty) [79, 110]
        FanControlCharacteristic_init = (Inl NotPermittedException, FanControlCharacteristic_init, [])"
proof -
  have e: "utf8_encode (State_value State_on) = Inr [79, 78]"
    by (simp add: utf8_encode_ON)
  have d: "utf8_decode [79, 110] = Inr [79, 110]"
    by (simp add: cons_cp_def)
  have n: "\<forall>m. utf8_encode (State_value m) \<noteq> Inr [79, 110]"
  proof
    fix m show "utf8_encode (State_value m) \<noteq> Inr [79, 110]"
      by (cases m) (simp_all add: utf8_encode_ON utf8_encode_OFF utf8_encode_UNKNOWN)
  qed
  show ?thesis
    using fan_write_validation [of "backend_up Little Map.empty" "[79, 78]"
        FanControlCharacteristic_init State_on "[79, 78]"]
      fan_write_validation [of "backend_up Little Map.empty" "[79, 110]"
        FanControlCharacteristic_init State_on "[79, 110]"]
      e d n
    by simp
qed

text \<open>
  C3 as stated fails: \<open>"on"\<close> is \<open>"ON"\<close> up to case, and a write of its bytes is refused.
\<close>

theorem fan_write_validation_counterexample:
  "py_lower (ascii ''ON'') = ascii ''on''
   \<and> utf8_encode (ascii ''on'') = Inr [111, 110]
   \<and> FanControlCharacteristic_WriteValue (backend_up Little Map.empty) [111, 110]
        FanControlCharacteristic_init = (Inl NotPermittedException, FanControlCharacteristic_init, [])"
  by (simp add: fan_write_on_lower_case utf8_encode_on) (simp add: py_lower_def lower_cp_def ascii_def)

section \<open>The light control\<close>

lemma py_int_error: "py_int s = Inl e \<Longrightarrow> e = ValueError"
  by (simp add: py_int_def Let_def split: if_splits)

lemma py_int_digit: "n \<le> 9 \<Longrightarrow> py_int [48 + n] = Inr (int n)"
  by (simp add: py_int_def Let_def is_space_def is_digit_def digits_value_def)

lemma py_lower_digit: "n \<le> 9 \<Longrightarrow> py_lower [48 + n] = [48 + n]"
  by (simp add: py_lower_def lower_cp_def)

lemma unat_digit_byte:
  assumes "n \<le> 9"
  shows "unat (of_nat (48 + n) :: byte) = 48 + n"
proof -
  have "unat (of_nat (48 + n) :: byte) = (48 + n) mod 2 ^ LENGTH(8)"
    by (rule unat_of_nat)
  also have "\<dots> = 48 + n"
    using assms by simp
  finally show ?thesis .
qed

lemma light_control_write_digit:
  assumes "n \<le> 2"
    and "rpc_cmd be [(''cmd'', PyStr (ascii ''setlight'')), (''state'', PyStr [48 + n])] = Inr ()"
  shows "LightControlCharacteristic_WriteValue be [of_nat (48 + n)] self =
           (Inr (), self\<lparr>lastValue := int n\<rparr>,
            [RpcCmd [(''cmd'', PyStr (ascii ''setlight'')), (''state'', PyStr [48 + n])]])"
proof -
  have n9: "n \<le> 9" using assms(1) by simp
  have u: "map unat [of_nat (48 + n) :: byte] = [48 + n]"
    using unat_digit_byte [OF n9] by simp
  have r: "int n = 0 \<or> int n = 1 \<or> int n = 2"
    using assms(1) by auto
  show ?thesis
    unfolding LightControlCharacteristic_WriteValue_def u Let_def
    using r assms(2) by (simp add: py_int_digit [OF n9] py_lower_digit [OF n9])
qed

lemma light_control_write_not_integer:
  assumes "py_int (map unat val) = Inl e"
  shows "LightControlCharacteristic_WriteValue be val self = (Inl ValueError, self, [])"
  using assms py_int_error [OF assms]
  by (simp add: LightControlCharacteristic_WriteValue_def)

lemma light_control_write_error:
  assumes "fst (LightControlCharacteristic_WriteValue be val self) = Inl e"
  shows "fst (snd (LightControlCharacteristic_WriteValue be val self)) = self"
  using assms
  by (auto simp add: LightControlCharacteristic_WriteValue_def Let_def split: sum.splits if_splits)

lemma light_control_write_3:
  "LightControlCharacteristic_WriteValue be [51] self = (Inl NameError, self, [])"
  using py_int_digit [of 3]
  by (simp add: LightControlCharacteristic_WriteValue_def)

lemma light_control_write_out_of_range:
  assumes "py_int (map unat val) = Inr i" and "i \<noteq> 0" and "i \<noteq> 1" and "i \<noteq> 2"
  shows "isl (fst (LightControlCharacteristic_WriteValue be val self))
         \<and> fst (snd (LightControlCharacteristic_WriteValue be val self)) = self
         \<and> snd (snd (LightControlCharacteristic_WriteValue be val self)) = []"
  using assms by (simp add: LightControlCharacteristic_WriteValue_def)

lemma light_control_write_in_range:
  assumes "py_int (map unat val) = Inr i" and "i = 0 \<or> i = 1 \<or> i = 2"
    and "rpc_cmd be [(''cmd'', PyStr (ascii ''setlight'')),
                     (''state'', PyStr (py_lower (map unat val)))] = Inr ()"
  shows "LightControlCharacteristic_WriteValue be val self =
           (Inr (), self\<lparr>lastValue := i\<rparr>,
            [RpcCmd [(''cmd'', PyStr (ascii ''setlight'')),
                     (''state'', PyStr (py_lower (map unat val)))]])"
  using assms by (auto simp add: LightControlCharacteristic_WriteValue_def Let_def)

lemma light_control_read:
  "LightControlCharacteristic_ReadValue be self =
     (Inr [lastValue self], self\<lparr>self_value := [lastValue self]\<rparr>, [])"
  by (simp add: LightControlCharacteristic_ReadValue_def)

text \<open>
  C2, as the code has it. A write of the ASCII digit \<open>"0"\<close>, \<open>"1"\<close> or \<open>"2"\<close> to the light
  control whose backend call succeeds sets \<open>lastValue\<close> to 0, 1 or 2, submits
  \<open>{"cmd": "setlight", "state": <the digit>}\<close> and leaves \<open>self.value\<close> as it was; so does
  any payload that \<open>int()\<close> parses to 0, 1 or 2. A payload that parses to any other
  integer is refused: the write raises, makes no backend call and changes nothing. A
  payload that \<open>int()\<close> cannot parse raises \<open>ValueError\<close> without a backend call. Whenever
  the write raises, \<open>lastValue\<close> and \<open>self.value\<close> are unchanged. A read makes no backend
  call, returns the single value \<open>lastValue\<close> and stores it as \<open>self.value\<close>; so a read
  after an accepted digit returns that digit's value.
\<close>

theorem light_control_write:
  "(n \<le> 2 \<and> rpc_cmd be [(''cmd'', PyStr (ascii ''setlight'')), (''state'', PyStr [48 + n])] = Inr ()
      \<longrightarrow> LightControlCharacteristic_WriteValue be [of_nat (48 + n)] self =
           (Inr (), self\<lparr>lastValue := int n\<rparr>,
            [RpcCmd [(''cmd'', PyStr (ascii ''setlight'')), (''state'', PyStr [48 + n])]]))
   \<and> (py_int (map unat val) = Inl e
      \<longrightarrow> LightControlCharacteristic_WriteValue be val self = (Inl ValueError, self, []))
   \<and> (fst (LightControlCharacteristic_WriteValue be val self) = Inl e'
      \<longrightarrow> fst (snd (LightControlCharacteristic_WriteValue be val self)) = self)
   \<and> (py_int (map unat val) = Inr i \<and> i \<noteq> 0 \<and> i \<noteq> 1 \<and> i \<noteq> 2
      \<longrightarrow> isl (fst (LightControlCharacteristic_WriteValue be val self))
          \<and> fst (snd (LightControlCharacteristic_WriteValue be val self)) = self
          \<and> snd (snd (LightControlCharacteristic_WriteValue be val self)) = [])
   \<and> (py_int (map unat val) = Inr i \<and> (i = 0 \<or> i = 1 \<or> i = 2)
        \<and> rpc_cmd be [(''cmd'', PyStr (ascii ''setlight'')),
                       (''state'', PyStr (py_lower (map unat val)))] = Inr ()
      \<longrightarrow> LightControlCharacteristic_WriteValue be val self =
           (Inr (), self\<lparr>lastValue := i\<rparr>,
            [RpcCmd [(''cmd'', PyStr (ascii ''setlight'')),
                     (''state'', PyStr (py_lower (map unat val)))]]))
   \<and> LightControlCharacteristic_ReadValue be' self =
        (Inr [lastValue self], self\<lparr>self_value := [lastValue self]\<rparr>, [])
   \<and> (n \<le> 2 \<and> rpc_cmd be [(''cmd'', PyStr (ascii ''setlight'')), (''state'', PyStr [48 + n])] = Inr ()
      \<longrightarrow> LightControlCharacteristic_ReadValue be'
             (fst (snd (LightControlCharacteristic_WriteValue be [of_nat (48 + n)] self))) =
           (Inr [int n], self\<lparr>self_value := [int n], lastValue := int n\<rparr>, []))"
proof (intro conjI impI)
  assume a: "n \<le> 2 \<and> rpc_cmd be [(''cmd'', PyStr (ascii ''setlight'')),
      (''state'', PyStr [48 + n])] = Inr ()"
  then show w: "LightControlCharacteristic_WriteValue be [of_nat (48 + n)] self =
           (Inr (), self\<lparr>lastValue := int n\<rparr>,
            [RpcCmd [(''cmd'', PyStr (ascii ''setlight'')), (''state'', PyStr [48 + n])]])"
    using light_control_write_digit [of n be self] by blast
  show "LightControlCharacteristic_ReadValue be'
             (fst (snd (LightControlCharacteristic_WriteValue be [of_nat (48 + n)] self))) =
           (Inr [int n], self\<lparr>self_value := [int n], lastValue := int n\<rparr>, [])"
    unfolding w by (simp add: light_control_read)
next
  assume "py_int (map unat val) = Inl e"
  then show "LightControlCharacteristic_WriteValue be val self = (Inl ValueError, self, [])"
    by (rule light_control_write_not_integer)
next
  assume "fst (LightControlCharacteristic_WriteValue be val self) = Inl e'"
  then show "fst (snd (LightControlCharacteristic_WriteValue be val self)) = self"
    by (rule light_control_write_error)
next
  assume a: "py_int (map unat val) = Inr i \<and> i \<noteq> 0 \<and> i \<noteq> 1 \<and> i \<noteq> 2"
  then have "isl (fst (LightControlCharacteristic_WriteValue be val self))
         \<and> fst (snd (LightControlCharacteristic_WriteValue be val self)) = self
         \<and> snd (snd (LightControlCharacteristic_WriteValue be val self)) = []"
    using light_control_write_out_of_range [of val i be self] by blast
  then show "isl (fst (LightControlCharacteristic_WriteValue be val self))"
    and "fst (snd (LightControlCharacteristic_WriteValue be val self)) = self"
    and "snd (snd (LightControlCharacteristic_WriteValue be val self)) = []"
    by blast+
next
  assume "py_int (map unat val) = Inr i \<and> (i = 0 \<or> i = 1 \<or> i = 2)
        \<and> rpc_cmd be [(''cmd'', PyStr (ascii ''setlight'')),
                       (''state'', PyStr (py_lower (map unat val)))] = Inr ()"
  then show "LightControlCharacteristic_WriteValue be val self =
           (Inr (), self\<lparr>lastValue := i\<rparr>,
            [RpcCmd [(''cmd'', PyStr (ascii ''setlight'')),
                     (''state'', PyStr (py_lower (map unat val)))]])"
    using light_control_write_in_range [of val i be self] by blast
next
  show "LightControlCharacteristic_ReadValue be' self =
        (Inr [lastValue self], self\<lparr>self_value := [lastValue self]\<rparr>, [])"
    by (rule light_control_read)
qed

theorem light_control_write_witness:
  "LightControlCharacteristic_WriteValue (backend_up Little Map.empty) [48]
       (LightControlCharacteristic_init\<lparr>lastValue := 2\<rparr>) =
     (Inr (), \<lparr>self_value = [0], lastValue = 0\<rparr>,
      [RpcCmd [(''cmd'', PyStr (ascii ''setlight'')), (''state'', PyStr (ascii ''0''))]])
   \<and> LightControlCharacteristic_WriteValue (backend_up Little Map.empty) [49]
       LightControlCharacteristic_init =
     (Inr (), \<lparr>self_value = [0], lastValue = 1\<rparr>,
      [RpcCmd [(''cmd'', PyStr (ascii ''setlight'')), (''state'', PyStr (ascii ''1''))]])
   \<and> LightControlCharacteristic_WriteValue (backend_up Little Map.empty) [50]
       LightControlCharacteristic_init =
     (Inr (), \<lparr>self_value = [0], lastValue = 2\<rparr>,
      [RpcCmd [(''cmd'', PyStr (ascii ''setlight'')), (''state'', PyStr (ascii ''2''))]])
   \<and> py_int (map unat [111 :: byte, 110]) = Inl ValueError
   \<and> LightControlCharacteristic_WriteValue (backend_up Little Map.empty) [111, 110]
       LightControlCharacteristic_init = (Inl ValueError, LightControlCharacteristic_init, [])
   \<and> fst (snd (LightControlCharacteristic_WriteValue (backend_up Little Map.empty) [111, 110]
       LightControlCharacteristic_init)) = LightControlCharacteristic_init
   \<and> py_int (map unat [51 :: byte]) = Inr 3
   \<and> isl (fst (LightControlCharacteristic_WriteValue (backend_up Little Map.empty) [51]
       LightControlCharacteristic_init))
   \<and> fst (snd (LightControlCharacteristic_WriteValue (backend_up Little Map.empty) [51]
       LightControlCharacteristic_init)) = LightControlCharacteristic_init
   \<and> snd (snd (LightControlCharacteristic_WriteValue (backend_up Little Map.empty) [51]
       LightControlCharacteristic_init)) = []
   \<and> py_int (map unat [48 :: byte, 49]) = Inr 1
   \<and> LightControlCharacteristic_WriteValue (backend_up Little Map.empty) [48, 49]
       LightControlCharacteristic_init =
     (Inr (), \<lparr>self_value = [0], lastValue = 1\<rparr>,
      [RpcCmd [(''cmd'', PyStr (ascii ''setlight'')), (''state'', PyStr (ascii ''01''))]])
   \<and> LightControlCharacteristic_ReadValue (backend_down Little)
       (fst (snd (LightControlCharacteristic_WriteValue (backend_up Little Map.empty) [50]
          LightControlCharacteristic_init))) =
     (Inr [2], \<lparr>self_value = [2], lastValue = 2\<rparr>, [])"
proof -
  let ?be = "backend_up Little Map.empty"
  have ok: "rpc_cmd ?be d = Inr ()" for d
    by (simp add: backend_up_def)
  have p: "py_int (map unat [111 :: byte, 110]) = Inl ValueError"
    by (simp add: py_int_def Let_def is_space_def is_digit_def)
  have p3: "py_int (map unat [51 :: byte]) = Inr 3"
    using py_int_digit [of 3] by simp
  have p01: "py_int (map unat [48 :: byte, 49]) = Inr 1"
    by (simp add: py_int_def Let_def is_space_def is_digit_def digits_value_def)
  have l01: "py_lower [48, 49] = ascii ''01''"
    by (simp add: py_lower_def lower_cp_def ascii_def)
  note t0 = light_control_write [where n = 0 and be = ?be
      and self = "LightControlCharacteristic_init\<lparr>lastValue := 2\<rparr>" and val = "[111, 110]"
      and e = ValueError and e' = ValueError and i = 3 and be' = "backend_down Little"]
  note t1 = light_control_write [where n = 1 and be = ?be
      and self = LightControlCharacteristic_init and val = "[111, 110]"
      and e = ValueError and e' = ValueError and i = 3 and be' = "backend_down Little"]
  note t2 = light_control_write [where n = 2 and be = ?be
      and self = LightControlCharacteristic_init and val = "[51]"
      and e = ValueError and e' = ValueError and i = 3 and be' = "backend_down Little"]
  note t3 = light_control_write [where n = 2 and be = ?be
      and self = LightControlCharacteristic_init and val = "[48, 49]"
      and e = ValueError and e' = ValueError and i = 1 and be' = "backend_down Little"]
  have w0: "LightControlCharacteristic_WriteValue ?be [48]
       (LightControlCharacteristic_init\<lparr>lastValue := 2\<rparr>) =
     (Inr (), \<lparr>self_value = [0], lastValue = 0\<rparr>,
      [RpcCmd [(''cmd'', PyStr (ascii ''setlight'')), (''state'', PyStr (ascii ''0''))]])"
    using t0 ok by (simp add: LightControlCharacteristic_init_def ascii_def)
  have w1: "LightControlCharacteristic_WriteValue ?be [49] LightControlCharacteristic_init =
     (Inr (), \<lparr>self_value = [0], lastValue = 1\<rparr>,
      [RpcCmd [(''cmd'', PyStr (ascii ''setlight'')), (''state'', PyStr (ascii ''1''))]])"
    using t1 ok by (simp add: LightControlCharacteristic_init_def ascii_def)
  have w2: "LightControlCharacteristic_WriteValue ?be [50] LightControlCharacteristic_init =
     (Inr (), \<lparr>self_value = [0], lastValue = 2\<rparr>,
      [RpcCmd [(''cmd'', PyStr (ascii ''setlight'')), (''state'', PyStr (ascii ''2''))]])"
    using t2 ok by (simp add: LightControlCharacteristic_init_def ascii_def)
  have w3: "LightControlCharacteristic_WriteValue ?be [111, 110] LightControlCharacteristic_init
      = (Inl ValueError, LightControlCharacteristic_init, [])"
    using t1 p by simp
  have w4: "isl (fst (LightControlCharacteristic_WriteValue ?be [51] LightControlCharacteristic_init))"
    "fst (snd (LightControlCharacteristic_WriteValue ?be [51] LightControlCharacteristic_init))
       = LightControlCharacteristic_init"
    "snd (snd (LightControlCharacteristic_WriteValue ?be [51] LightControlCharacteristic_init)) = []"
    using t2 p3 by simp_all
  have w5: "LightControlCharacteristic_WriteValue ?be [48, 49] LightControlCharacteristic_init =
     (Inr (), \<lparr>self_value = [0], lastValue = 1\<rparr>,
      [RpcCmd [(''cmd'', PyStr (ascii ''setlight'')), (''state'', PyStr (ascii ''01''))]])"
    using t3 p01 ok by (simp add: l01 LightControlCharacteristic_init_def)
  have r: "LightControlCharacteristic_ReadValue (backend_down Little)
       (fst (snd (LightControlCharacteristic_WriteValue ?be [50] LightControlCharacteristic_init))) =
     (Inr [2], \<lparr>self_value = [2], lastValue = 2\<rparr>, [])"
    using t2 ok by (simp add: LightControlCharacteristic_init_def light_control_read)
  show ?thesis
    using w0 w1 w2 w3 w4 w5 r p p3 p01 by simp
qed

text \<open>
  C2 as stated fails: the bytes of \<open>"on"\<close> are not numeric and raise \<open>ValueError\<close>, not
  \<open>NotPermitted\<close>; and \<open>"01"\<close>, which is none of \<open>"0"\<close>, \<open>"1"\<close>, \<open>"2"\<close>, is accepted and sets
  \<open>lastValue\<close> to 1.
\<close>

theorem light_control_write_counterexample:
  "fst (LightControlCharacteristic_WriteValue (backend_up Little Map.empty) [111, 110]
          LightControlCharacteristic_init) = Inl ValueError
   \<and> ValueError \<noteq> NotPermittedException
   \<and> fst (LightControlCharacteristic_WriteValue (backend_up Little Map.empty) [48, 49]
          LightControlCharacteristic_init) = Inr ()
   \<and> lastValue (fst (snd (LightControlCharacteristic_WriteValue (backend_up Little Map.empty)
          [48, 49] LightControlCharacteristic_init))) = 1"
proof -
  have p: "py_int (map unat [111 :: byte, 110]) = Inl ValueError"
    by (simp add: py_int_def Let_def is_space_def is_digit_def)
  have q: "py_int (map unat [48 :: byte, 49]) = Inr 1"
    by (simp add: py_int_def Let_def is_space_def is_digit_def digits_value_def)
  show ?thesis
    using p q
    by (simp add: LightControlCharacteristic_WriteValue_def backend_up_def Let_def)
qed

section \<open>What a write leaves behind\<close>

lemma temperature_write_outcome:
  "(snd (snd (TemperatureSetpointCharacteristic_WriteValue be val self)) = [RpcCmd data]
      \<and> rpc_cmd be data = Inl e
      \<longrightarrow> isl (fst (TemperatureSetpointCharacteristic_WriteValue be val self)))
   \<and> fst (snd (TemperatureSetpointCharacteristic_WriteValue be val self)) = self"
  by (auto simp add: TemperatureSetpointCharacteristic_WriteValue_def Let_def split: sum.splits)

lemma humidity_write_outcome:
  "(snd (snd (HumiditySetpointCharacteristic_WriteValue be val self)) = [RpcCmd data]
      \<and> rpc_cmd be data = Inl e
      \<longrightarrow> isl (fst (HumiditySetpointCharacteristic_WriteValue be val self)))
   \<and> fst (snd (HumiditySetpointCharacteristic_WriteValue be val self)) = self"
  by (auto simp add: HumiditySetpointCharacteristic_WriteValue_def Let_def split: sum.splits)

lemma light_control_write_failure:
  "snd (snd (LightControlCharacteristic_WriteValue be val self)) = [RpcCmd data]
     \<and> rpc_cmd be data = Inl e
   \<longrightarrow> isl (fst (LightControlCharacteristic_WriteValue be val self))
       \<and> fst (snd (LightControlCharacteristic_WriteValue be val self)) = self"
  by (auto simp add: LightControlCharacteristic_WriteValue_def Let_def split: sum.splits if_splits)

lemma light_control_write_success:
  "fst (LightControlCharacteristic_WriteValue be val self) = Inr ()
   \<longrightarrow> self_value (fst (snd (LightControlCharacteristic_WriteValue be val self))) = self_value self
       \<and> py_int (map unat val)
           = Inr (lastValue (fst (snd (LightControlCharacteristic_WriteValue be val self))))
       \<and> lastValue (fst (snd (LightControlCharacteristic_WriteValue be val self))) \<in> {0, 1, 2}"
  by (auto simp add: LightControlCharacteristic_WriteValue_def Let_def split: sum.splits if_splits)

lemma fan_write_success:
  "fst (FanControlCharacteristic_WriteValue be val self) = Inr ()
   \<longrightarrow> fst (snd (FanControlCharacteristic_WriteValue be val self)) = self\<lparr>self_value := val\<rparr>"
  by (auto simp add: FanControlCharacteristic_WriteValue_def Let_def split: sum.splits if_splits)

text \<open>
  C4, as the code has it. For the three characteristics written over the RPC channel
  (temperature setpoint, humidity setpoint, light control): when the handler has
  submitted a command and the backend call fails, the write raises to the caller and
  neither \<open>self.value\<close> nor \<open>lastValue\<close> changes. When a write succeeds, the two
  setpoints leave \<open>self.value\<close> as it was (no write handler of theirs assigns it), the
  light control records the parsed integer (0, 1 or 2) in \<open>lastValue\<close> and leaves
  \<open>self.value\<close> as it was, and the fan sets \<open>self.value\<close> to the payload.
\<close>

theorem write_outcomes:
  "(snd (snd (TemperatureSetpointCharacteristic_WriteValue be val self)) = [RpcCmd data]
      \<and> rpc_cmd be data = Inl e
      \<longrightarrow> isl (fst (TemperatureSetpointCharacteristic_WriteValue be val self)))
   \<and> fst (snd (TemperatureSetpointCharacteristic_WriteValue be val self)) = self
   \<and> (snd (snd (HumiditySetpointCharacteristic_WriteValue be val self)) = [RpcCmd data]
      \<and> rpc_cmd be data = Inl e
      \<longrightarrow> isl (fst (HumiditySetpointCharacteristic_WriteValue be val self)))
   \<and> fst (snd (HumiditySetpointCharacteristic_WriteValue be val self)) = self
   \<and> (snd (snd (LightControlCharacteristic_WriteValue be val lc)) = [RpcCmd data]
      \<and> rpc_cmd be data = Inl e
      \<longrightarrow> isl (fst (LightControlCharacteristic_WriteValue be val lc))
          \<and> fst (snd (LightControlCharacteristic_WriteValue be val lc)) = lc)
   \<and> (fst (LightControlCharacteristic_WriteValue be val lc) = Inr ()
      \<longrightarrow> self_value (fst (snd (LightControlCharacteristic_WriteValue be val lc))) = self_value lc
          \<and> py_int (map unat val)
              = Inr (lastValue (fst (snd (LightControlCharacteristic_WriteValue be val lc))))
          \<and> lastValue (fst (snd (LightControlCharacteristic_WriteValue be val lc))) \<in> {0, 1, 2})
   \<and> (fst (FanControlCharacteristic_WriteValue be val self) = Inr ()
      \<longrightarrow> fst (snd (FanControlCharacteristic_WriteValue be val self)) = self\<lparr>self_value := val\<rparr>)"
  using temperature_write_outcome [of be val self data e]
    humidity_write_outcome [of be val self data e]
    light_control_write_failure [of be val lc data e]
    light_control_write_success [of be val lc]
    fan_write_success [of be val self]
  by blast

theorem write_outcomes_witness:
  "isl (fst (TemperatureSetpointCharacteristic_WriteValue (backend_down Little)
          [0, 0, 0, 0, 0, 0x80, 0x35, 0x40] TemperatureSetpointCharacteristic_init))
   \<and> fst (snd (TemperatureSetpointCharacteristic_WriteValue (backend_down Little)
          [0, 0, 0, 0, 0, 0x80, 0x35, 0x40] TemperatureSetpointCharacteristic_init))
       = TemperatureSetpointCharacteristic_init
   \<and> isl (fst (HumiditySetpointCharacteristic_WriteValue (backend_down Little)
          [0x3C, 0, 0, 0] HumiditySetpointCharacteristic_init))
   \<and> fst (snd (HumiditySetpointCharacteristic_WriteValue (backend_down Little)
          [0x3C, 0, 0, 0] HumiditySetpointCharacteristic_init))
       = HumiditySetpointCharacteristic_init
   \<and> isl (fst (LightControlCharacteristic_WriteValue (backend_down Little) [49]
          LightControlCharacteristic_init))
   \<and> fst (snd (LightControlCharacteristic_WriteValue (backend_down Little) [49]
          LightControlCharacteristic_init)) = LightControlCharacteristic_init
   \<and> fst (LightControlCharacteristic_WriteValue (backend_up Little Map.empty) [49]
          LightControlCharacteristic_init) = Inr ()
   \<and> fst (snd (LightControlCharacteristic_WriteValue (backend_up Little Map.empty) [49]
          LightControlCharacteristic_init)) = \<lparr>self_value = [0], lastValue = 1\<rparr>
   \<and> fst (FanControlCharacteristic_WriteValue (backend_up Little Map.empty) [79, 78]
          FanControlCharacteristic_init) = Inr ()
   \<and> fst (snd (FanControlCharacteristic_WriteValue (backend_up Little Map.empty) [79, 78]
          FanControlCharacteristic_init)) = \<lparr>self_value = [79, 78]\<rparr>"
proof -
  let ?dn = "backend_down Little" and ?up = "backend_up Little Map.empty"
  let ?t = "[0, 0, 0, 0, 0, 0x80, 0x35, 0x40] :: byte list"
  let ?td = "[(''cmd'', PyStr (ascii ''temperature_setpoint'')), (''value'', PyFloat 0x4035800000000000)]"
  let ?hd = "[(''cmd'', PyStr (ascii ''humidity_setpoint'')), (''value'', PyInt 60)]"
  let ?ld = "[(''cmd'', PyStr (ascii ''setlight'')), (''state'', PyStr [49])]"
  have dn: "rpc_cmd ?dn d = Inl BackendError" "byteorder ?dn = Little" for d
    by (simp_all add: backend_down_def)
  have up: "rpc_cmd ?up d = Inr ()" "http_post ?up d = Inr ()" for d
    by (simp_all add: backend_up_def)
  have tc: "snd (snd (TemperatureSetpointCharacteristic_WriteValue ?dn ?t
      TemperatureSetpointCharacteristic_init)) = [RpcCmd ?td]"
    by (simp add: temperature_write_calls dn native_def)
  have hc: "snd (snd (HumiditySetpointCharacteristic_WriteValue ?dn [0x3C, 0, 0, 0]
      HumiditySetpointCharacteristic_init)) = [RpcCmd ?hd]"
    by (simp add: humidity_write_calls dn native_def)
  have p1: "py_int (map unat [49 :: byte]) = Inr 1"
    using py_int_digit [of 1] by simp
  have lc: "snd (snd (LightControlCharacteristic_WriteValue ?dn [49]
      LightControlCharacteristic_init)) = [RpcCmd ?ld]"
    using p1 by (simp add: LightControlCharacteristic_WriteValue_def Let_def dn py_lower_def
        lower_cp_def)
  have ls: "fst (LightControlCharacteristic_WriteValue ?up [49] LightControlCharacteristic_init)
      = Inr ()"
    using p1 by (simp add: LightControlCharacteristic_WriteValue_def Let_def up)
  have fs: "fst (FanControlCharacteristic_WriteValue ?up [79, 78] FanControlCharacteristic_init)
      = Inr ()"
    by (simp add: FanControlCharacteristic_WriteValue_def Let_def up cons_cp_def
        State_has_value_def ascii_def)
  note t = write_outcomes [of ?dn ?t TemperatureSetpointCharacteristic_init ?td BackendError
      LightControlCharacteristic_init]
  note h = write_outcomes [of ?dn "[0x3C, 0, 0, 0]" HumiditySetpointCharacteristic_init ?hd
      BackendError LightControlCharacteristic_init]
  note l = write_outcomes [of ?dn "[49]" TemperatureSetpointCharacteristic_init ?ld BackendError
      LightControlCharacteristic_init]
  note s = write_outcomes [of ?up "[49]" TemperatureSetpointCharacteristic_init ?ld BackendError
      LightControlCharacteristic_init]
  note f = write_outcomes [of ?up "[79, 78]" FanControlCharacteristic_init ?ld BackendError
      LightControlCharacteristic_init]
  have t': "isl (fst (TemperatureSetpointCharacteristic_WriteValue ?dn ?t
        TemperatureSetpointCharacteristic_init))"
      "fst (snd (TemperatureSetpointCharacteristic_WriteValue ?dn ?t
        TemperatureSetpointCharacteristic_init)) = TemperatureSetpointCharacteristic_init"
    using t tc dn(1) by blast+
  have h': "isl (fst (HumiditySetpointCharacteristic_WriteValue ?dn [0x3C, 0, 0, 0]
        HumiditySetpointCharacteristic_init))"
      "fst (snd (HumiditySetpointCharacteristic_WriteValue ?dn [0x3C, 0, 0, 0]
        HumiditySetpointCharacteristic_init)) = HumiditySetpointCharacteristic_init"
    using h hc dn(1) by blast+
  have l': "isl (fst (LightControlCharacteristic_WriteValue ?dn [49]
        LightControlCharacteristic_init))"
      "fst (snd (LightControlCharacteristic_WriteValue ?dn [49]
        LightControlCharacteristic_init)) = LightControlCharacteristic_init"
    using l lc dn(1) by blast+
  have s1: "self_value (fst (snd (LightControlCharacteristic_WriteValue ?up [49]
        LightControlCharacteristic_init))) = [0]"
    and s2: "lastValue (fst (snd (LightControlCharacteristic_WriteValue ?up [49]
        LightControlCharacteristic_init))) = 1"
    using s ls p1 by (simp_all add: LightControlCharacteristic_init_def)
  have s': "fst (snd (LightControlCharacteristic_WriteValue ?up [49]
        LightControlCharacteristic_init)) = \<lparr>self_value = [0], lastValue = 1\<rparr>"
    using s1 s2 by (cases "fst (snd (LightControlCharacteristic_WriteValue ?up [49]
        LightControlCharacteristic_init))") simp
  have f': "fst (snd (FanControlCharacteristic_WriteValue ?up [79, 78]
        FanControlCharacteristic_init)) = \<lparr>self_value = [79, 78]\<rparr>"
    using f fs by (simp add: FanControlCharacteristic_init_def)
  show ?thesis
    using t' h' l' ls s' fs f' by simp
qed

text \<open>
  C4 as stated fails: a write of the bytes of \<open>21.5\<close> to the temperature setpoint whose
  backend call succeeds leaves \<open>self.value\<close> empty instead of setting it to the payload.
\<close>

theorem write_outcomes_counterexample:
  "fst (TemperatureSetpointCharacteristic_WriteValue (backend_up Little Map.empty)
          [0, 0, 0, 0, 0, 0x80, 0x35, 0x40] TemperatureSetpointCharacteristic_init) = Inr ()
   \<and> self_value (fst (snd (TemperatureSetpointCharacteristic_WriteValue (backend_up Little Map.empty)
          [0, 0, 0, 0, 0, 0x80, 0x35, 0x40] TemperatureSetpointCharacteristic_init))) = []
   \<and> self_value (fst (snd (TemperatureSetpointCharacteristic_WriteValue (backend_up Little Map.empty)
          [0, 0, 0, 0, 0, 0x80, 0x35, 0x40] TemperatureSetpointCharacteristic_init)))
       \<noteq> [0, 0, 0, 0, 0, 0x80, 0x35, 0x40]"
  by (simp add: TemperatureSetpointCharacteristic_WriteValue_def struct_unpack_d_def Let_def
      backend_up_def TemperatureSetpointCharacteristic_init_def)

section \<open>Startup\<close>

lemma main_no_adapter:
  "find_adapter st = None \<Longrightarrow>
   main st = Inr \<lparr>issued = [], logged = [Critical ''GattManager1 interface not found''],
                 mainloop = NotCreated\<rparr>"
  by (simp add: main_def process_start_def)

lemma main_all_accepted:
  assumes "find_adapter st = Some a" and "\<forall>c. raises st c = None"
  shows "main st =
     Inr \<lparr>issued = [SetPowered, RegisterAgent,
       RegisterAdvertisement (Function register_ad_cb) (Function register_ad_error_cb),
       RegisterApplication (Function register_app_cb) (ListOf [register_app_error_cb]),
       RequestDefaultAgent],
          logged = [Info ''Registering GATT application...''], mainloop = Running\<rparr>"
  using assms
  by (simp add: main_def and_then_def issue_def process_start_def)

lemma main_running:
  assumes "main st = Inr p" and "mainloop p = Running"
  shows "issued p =
      [SetPowered, RegisterAgent,
       RegisterAdvertisement (Function register_ad_cb) (Function register_ad_error_cb),
       RegisterApplication (Function register_app_cb) (ListOf [register_app_error_cb]),
       RequestDefaultAgent]"
proof (cases "find_adapter st")
  case None
  with assms show ?thesis
    by (auto simp add: main_no_adapter)
next
  case (Some a)
  with assms(1) show ?thesis
    by (auto simp add: main_def and_then_def issue_def process_start_def
        split: option.splits)
qed

lemma mainloop_run_not_running: "mainloop p \<noteq> Running \<Longrightarrow> mainloop_run rs p = p"
  by (cases rs) simp_all

lemma dispatch_advertisement_failed:
  assumes "issued p =
      [SetPowered, RegisterAgent,
       RegisterAdvertisement (Function register_ad_cb) (Function register_ad_error_cb),
       RegisterApplication (Function register_app_cb) (ListOf [register_app_error_cb]),
       RequestDefaultAgent]"
  shows "dispatch (AdvertisementFailed err) p =
           p\<lparr>logged := logged p @ [Critical (''Failed to register advertisement: '' @ err)],
             mainloop := Stopped\<rparr>"
  using assms by (simp add: deliver_def)

lemma dispatch_issued: "issued (dispatch r p) = issued p"
proof -
  have "issued (run_callback f err q) = issued q" for f err q
    by (cases f) simp_all
  then have "issued (deliver hs failed err q) = issued q" for hs failed err q
    by (cases hs; cases "if failed then snd (the hs) else fst (the hs)")
      (auto simp add: deliver_def split: prod.splits)
  then show ?thesis
    by (cases r) simp_all
qed


lemma dispatch_application_failed:
  assumes "issued p =
      [SetPowered, RegisterAgent,
       RegisterAdvertisement (Function register_ad_cb) (Function register_ad_error_cb),
       RegisterApplication (Function register_app_cb) (ListOf [register_app_error_cb]),
       RequestDefaultAgent]"
  shows "dispatch (ApplicationFailed err) p = p"
  using assms by (simp add: deliver_def)

text \<open>
  C7, as the code has it. With an adapter and no call refused, \<open>main\<close> issues, in this
  order: power on, agent registration, advertisement registration, application
  (attribute tree) registration, default-agent request; then the loop runs. Without an
  adapter \<open>main\<close> logs a critical error and returns: nothing is registered, no loop is
  created, and no reply is ever dispatched. A failure reply to the advertisement
  registration runs \<open>register_ad_error_cb\<close>: a critical error is logged, the loop is
  stopped, no call is issued again and no later reply is dispatched. The callback
  \<open>register_app_error_cb\<close> does the same when it runs.
\<close>

theorem startup_sequence:
  "(find_adapter st = None \<longrightarrow>
      main st = Inr \<lparr>issued = [], logged = [Critical ''GattManager1 interface not found''],
                    mainloop = NotCreated\<rparr>
      \<and> mainloop_run rs \<lparr>issued = [], logged = [Critical ''GattManager1 interface not found''],
                    mainloop = NotCreated\<rparr>
          = \<lparr>issued = [], logged = [Critical ''GattManager1 interface not found''],
                    mainloop = NotCreated\<rparr>)
   \<and> (find_adapter st = Some a \<and> (\<forall>c. raises st c = None) \<longrightarrow>
      main st =
        Inr \<lparr>issued = [SetPowered, RegisterAgent,
             RegisterAdvertisement (Function register_ad_cb) (Function register_ad_error_cb),
             RegisterApplication (Function register_app_cb) (ListOf [register_app_error_cb]),
             RequestDefaultAgent],
             logged = [Info ''Registering GATT application...''], mainloop = Running\<rparr>)
   \<and> (main st = Inr p \<and> mainloop p = Running \<longrightarrow>
      dispatch (AdvertisementFailed err) p =
        p\<lparr>logged := logged p @ [Critical (''Failed to register advertisement: '' @ err)],
          mainloop := Stopped\<rparr>
      \<and> mainloop_run (AdvertisementFailed err # rs) p = dispatch (AdvertisementFailed err) p)
   \<and> issued (dispatch r q) = issued q
   \<and> run_callback register_app_error_cb err q =
        q\<lparr>logged := logged q @ [Critical (''Failed to register application: '' @ err)],
          mainloop := Stopped\<rparr>"
proof (intro conjI impI)
  assume "find_adapter st = None"
  then show "main st = Inr \<lparr>issued = [], logged = [Critical ''GattManager1 interface not found''],
                    mainloop = NotCreated\<rparr>"
    by (rule main_no_adapter)
next
  show "mainloop_run rs \<lparr>issued = [], logged = [Critical ''GattManager1 interface not found''],
                    mainloop = NotCreated\<rparr>
          = \<lparr>issued = [], logged = [Critical ''GattManager1 interface not found''],
                    mainloop = NotCreated\<rparr>"
    by (rule mainloop_run_not_running) simp
next
  assume "find_adapter st = Some a \<and> (\<forall>c. raises st c = None)"
  then show "main st =
        Inr \<lparr>issued = [SetPowered, RegisterAgent,
             RegisterAdvertisement (Function register_ad_cb) (Function register_ad_error_cb),
             RegisterApplication (Function register_app_cb) (ListOf [register_app_error_cb]),
             RequestDefaultAgent],
             logged = [Info ''Registering GATT application...''], mainloop = Running\<rparr>"
    using main_all_accepted [of st a] by blast
next
  assume a: "main st = Inr p \<and> mainloop p = Running"
  then have i: "issued p =
      [SetPowered, RegisterAgent,
       RegisterAdvertisement (Function register_ad_cb) (Function register_ad_error_cb),
       RegisterApplication (Function register_app_cb) (ListOf [register_app_error_cb]),
       RequestDefaultAgent]"
    using main_running [of st p] by blast
  show d: "dispatch (AdvertisementFailed err) p =
        p\<lparr>logged := logged p @ [Critical (''Failed to register advertisement: '' @ err)],
          mainloop := Stopped\<rparr>"
    by (rule dispatch_advertisement_failed [OF i])
  have "mainloop (dispatch (AdvertisementFailed err) p) \<noteq> Running"
    unfolding d by simp
  then have "mainloop_run rs (dispatch (AdvertisementFailed err) p)
      = dispatch (AdvertisementFailed err) p"
    by (rule mainloop_run_not_running)
  with a show "mainloop_run (AdvertisementFailed err # rs) p = dispatch (AdvertisementFailed err) p"
    by simp
next
  show "issued (dispatch r q) = issued q"
    by (rule dispatch_issued)
next
  show "run_callback register_app_error_cb err q =
        q\<lparr>logged := logged q @ [Critical (''Failed to register application: '' @ err)],
          mainloop := Stopped\<rparr>"
    by simp
qed

theorem startup_sequence_witness:
  "find_adapter stack_no_adapter = None
   \<and> main stack_no_adapter =
       Inr \<lparr>issued = [], logged = [Critical ''GattManager1 interface not found''],
            mainloop = NotCreated\<rparr>
   \<and> main stack_up =
       Inr \<lparr>issued = [SetPowered, RegisterAgent,
            RegisterAdvertisement (Function register_ad_cb) (Function register_ad_error_cb),
            RegisterApplication (Function register_app_cb) (ListOf [register_app_error_cb]),
            RequestDefaultAgent],
            logged = [Info ''Registering GATT application...''], mainloop = Running\<rparr>
   \<and> mainloop_run [AdvertisementFailed ''busy'', ApplicationRegistered]
        \<lparr>issued = [SetPowered, RegisterAgent,
       RegisterAdvertisement (Function register_ad_cb) (Function register_ad_error_cb),
       RegisterApplication (Function register_app_cb) (ListOf [register_app_error_cb]),
       RequestDefaultAgent],
         logged = [Info ''Registering GATT application...''], mainloop = Running\<rparr> =
       \<lparr>issued = [SetPowered, RegisterAgent,
       RegisterAdvertisement (Function register_ad_cb) (Function register_ad_error_cb),
       RegisterApplication (Function register_app_cb) (ListOf [register_app_error_cb]),
       RequestDefaultAgent],
        logged = [Info ''Registering GATT application...'',
                  Critical ''Failed to register advertisement: busy''],
        mainloop = Stopped\<rparr>"
proof -
  let ?p = "\<lparr>issued = [SetPowered, RegisterAgent,
       RegisterAdvertisement (Function register_ad_cb) (Function register_ad_error_cb),
       RegisterApplication (Function register_app_cb) (ListOf [register_app_error_cb]),
       RequestDefaultAgent],
         logged = [Info ''Registering GATT application...''], mainloop = Running\<rparr>"
  have n: "find_adapter stack_no_adapter = None"
    by (simp add: stack_no_adapter_def)
  have u: "find_adapter stack_up = Some ''/org/bluez/hci0'' \<and> (\<forall>c. raises stack_up c = None)"
    by (simp add: stack_up_def)
  note t1 = startup_sequence [of stack_no_adapter "[]" "''/org/bluez/hci0''" ?p "''busy''"
      AdvertisementRegistered ?p]
  note t2 = startup_sequence [of stack_up "[ApplicationRegistered]" "''/org/bluez/hci0''" ?p "''busy''"
      AdvertisementRegistered ?p]
  have m1: "main stack_no_adapter =
       Inr \<lparr>issued = [], logged = [Critical ''GattManager1 interface not found''],
            mainloop = NotCreated\<rparr>"
    using t1 n by blast
  have m2: "main stack_up = Inr ?p"
    using t2 u by blast
  have m3: "mainloop_run [AdvertisementFailed ''busy'', ApplicationRegistered] ?p =
      dispatch (AdvertisementFailed ''busy'') ?p"
    and m4: "dispatch (AdvertisementFailed ''busy'') ?p =
      ?p\<lparr>logged := logged ?p @ [Critical (''Failed to register advertisement: '' @ ''busy'')],
        mainloop := Stopped\<rparr>"
    using t2 m2 by simp_all
  show ?thesis
    using n m1 m2 m3 m4 by simp
qed

text \<open>
  C7 as stated fails: the agent is registered before the advertisement, not after the
  application.
\<close>

theorem startup_sequence_counterexample:
  "(case main stack_up of Inl e \<Rightarrow> None
      | Inr p \<Rightarrow> position (\<lambda>c. c = RegisterAgent) (issued p)) = Some 1
   \<and> (case main stack_up of Inl e \<Rightarrow> None
      | Inr p \<Rightarrow> position is_RegisterAdvertisement (issued p)) = Some 2
   \<and> (case main stack_up of Inl e \<Rightarrow> None
      | Inr p \<Rightarrow> position is_RegisterApplication (issued p)) = Some 3"
  by (simp add: main_def and_then_def issue_def process_start_def stack_up_def)

end
